theory Spec2Isabelle
  imports Complex_Main "HOL-Library.Sublist"
begin

section \<open>Regular expressions of the launch task\<close>

text \<open>
  The launch task tests paths with four regular-expression literals, all with the
  \<^verbatim>\<open>i\<close> flag and none with the \<^verbatim>\<open>m\<close> flag:
  \<^verbatim>\<open>/.(app|exe|bat|sh)$/i\<close>, \<^verbatim>\<open>/.html?$/i\<close>, \<^verbatim>\<open>/^https?:/i\<close> and
  \<^verbatim>\<open>/UE4PrereqSetup(_x64)?.exe/i\<close>. They are embedded as values of a small
  expression type with a backtracking matcher: \<open>rxm r s\<close> lists what is left of \<open>s\<close>
  after each way \<open>r\<close> can match a prefix of it.

  A JavaScript string is a sequence of code units; it is modelled as a \<open>string\<close>, so
  the line terminators a \<^verbatim>\<open>.\<close> refuses are line feed and carriage return here.
  Under the \<^verbatim>\<open>i\<close> flag two code units match when their canonical (upper-case) forms
  agree, and a code unit above 127 is never folded onto an ASCII one; every character
  of the four patterns is ASCII, so folding the ASCII letters is exact for them.
\<close>

datatype rx = Eps | Dot | Chr char | Cat rx rx | Alt rx rx | Opt rx

definition lineTerminator :: "char \<Rightarrow> bool" where
  "lineTerminator c = (c = CHR 0x0A \<or> c = CHR 0x0D)"

definition canonicalize :: "char \<Rightarrow> char" where
  "canonicalize c =
     (case map_of (zip ''abcdefghijklmnopqrstuvwxyz'' ''ABCDEFGHIJKLMNOPQRSTUVWXYZ'') c of
        Some u \<Rightarrow> u
      | None \<Rightarrow> c)"

fun rxm :: "rx \<Rightarrow> string \<Rightarrow> string list" where
  "rxm Eps s = [s]"
| "rxm Dot s = (case s of [] \<Rightarrow> [] | c # cs \<Rightarrow> if lineTerminator c then [] else [cs])"
| "rxm (Chr a) s =
     (case s of [] \<Rightarrow> [] | c # cs \<Rightarrow> if canonicalize c = canonicalize a then [cs] else [])"
| "rxm (Cat r1 r2) s = concat (map (rxm r2) (rxm r1 s))"
| "rxm (Alt r1 r2) s = rxm r1 s @ rxm r2 s"
| "rxm (Opt r) s = rxm r s @ [s]"

fun lit :: "string \<Rightarrow> rx" where
  "lit [] = Eps"
| "lit (c # cs) = Cat (Chr c) (lit cs)"

record regexp =
  body :: rx
  bol :: bool
  eol :: bool

text \<open>
  \<^verbatim>\<open>RegExp.prototype.test\<close>: a match may start at any position of the input unless the
  pattern opens with \<^verbatim>\<open>^\<close>, and must reach the end of the input when it closes
  with \<^verbatim>\<open>$\<close>.
\<close>

definition test :: "regexp \<Rightarrow> string \<Rightarrow> bool" where
  "test re s =
     (\<exists>t \<in> set (if bol re then [s] else suffixes s).
        \<exists>rest \<in> set (rxm (body re) t). eol re \<longrightarrow> rest = [])"

definition nativeExtRe :: regexp where
  "nativeExtRe =
     \<lparr>body = Cat Dot (Alt (lit ''app'') (Alt (lit ''exe'') (Alt (lit ''bat'') (lit ''sh'')))),
      bol = False, eol = True\<rparr>"

definition htmlExtRe :: regexp where
  "htmlExtRe = \<lparr>body = Cat Dot (Cat (lit ''htm'') (Opt (Chr CHR ''l''))), bol = False, eol = True\<rparr>"

definition urlRe :: regexp where
  "urlRe = \<lparr>body = Cat (lit ''http'') (Cat (Opt (Chr CHR ''s'')) (Chr CHR '':'')),
            bol = True, eol = False\<rparr>"

definition ue4PrereqRe :: regexp where
  "ue4PrereqRe =
     \<lparr>body = Cat (lit ''UE4PrereqSetup'') (Cat (Opt (lit ''_x64'')) (Cat Dot (lit ''exe''))),
      bol = False, eol = False\<rparr>"


section \<open>Data model\<close>

text \<open>
  The install record. Only the fields the launch task reads or writes are kept; the
  game id and the cached game summary are handed to collaborators only, which receive
  the whole record here. A field that may be absent is an option: the source tests
  some of them, and it indexes \<open>uploads\<close> (a table from upload ids to uploads,
  kept as an association list) without a test, which throws when the table is
  absent.
\<close>

record cave =
  caveId :: string
  launchType :: "string option"
  executables :: "string list option"
  gamePath :: "string option"
  uploadId :: "int option"
  uploads :: "(int \<times> string) list option"
  secondsRun :: "int option"
  lastTouched :: "int option"
  installedUE4Prereq :: bool

record game =
  gid :: int
  title :: string
  stillCoverUrl :: "string option"
  coverUrl :: "string option"

record manifest_action =
  name :: "string option"
  path :: string
  icon :: "string option"
  args :: "string list option"
  scope :: "string option"

record manifest =
  actions :: "manifest_action list"

record subkey_response =
  key :: string
  expiresAt :: string

record sniff_result =
  linuxExecutable :: bool
  macExecutable :: bool

datatype error =
    InvariantViolation string
  | TypeError string
  | CouldNotLaunch "string list"
  | MissingActionName nat
  | UnsupportedLaunchType "string option"
  | Crash string
  | Failure string

text \<open>
  \<open>IStartTaskOpts\<close>: what the caller passes, and what the launcher receives once
  \<open>doStart\<close> has filled in \<open>manifestAction\<close>, \<open>env\<close> and \<open>args\<close> (the last is
  \<open>launchArgs\<close> here, the name \<open>args\<close> being the manifest action's). The two stores
  are present or not; the contents of the global one are the \<open>caves\<close> of the state.
\<close>

record start_opts =
  cave :: "cave option"
  credentials :: "string option"
  market :: bool
  globalMarket :: bool
  manifestActionName :: "string option"
  manifestAction :: "manifest_action option"
  env :: "(string \<times> string) list"
  launchArgs :: "string list"

record button =
  label :: string
  response :: string
  buttonIcon :: string
  className :: string

record modal =
  modalTitle :: string
  cover :: "string option"
  bigButtons :: "button list"
  buttons :: "string list"

datatype modal_response = ModalResponse string | Dismissed

record spawn_run =
  tokens :: "(bool \<times> string) list"
  exit :: "error + int"

record launch_run =
  fired :: "int list"
  failure :: "error option"

datatype log_entry =
    Reconfiguring "string list"
  | LaunchingGame int string
  | LookingForManifest string
  | FoundManifest
  | ErrorReadingManifest error
  | ManifestContents manifest
  | PickedInvalidAction string "manifest_action list"
  | NoManifestFound
  | RequestingSubkey string
  | GotSubkey nat
  | LookingForPrereq
  | LaunchingInstaller string
  | PrereqOut string
  | PrereqErr string
  | PrereqInstalled
  | PrereqExitCode int
  | PrereqError string error
  | LaunchError string error
  | IgnoringCrash rat error

datatype event =
    is_Log: Log log_entry
  | is_ExplorerOpen: ExplorerOpen string
  | is_Configure: Configure game cave "string option"
  | is_PromisedModal: PromisedModal modal
  | is_Sniff: Sniff string
  | is_Subkey: Subkey string int string
  | is_Spawn: Spawn string "string list"
  | is_Launcher: Launcher string start_opts

text \<open>
  What the task mutates and what it does to the outside: the caves table of the global
  store, and the calls made to collaborators, in order.
\<close>

record state =
  caves :: "string \<rightharpoonup> cave"
  trace :: "event list"

text \<open>
  The collaborators, none of which is part of the task: each is the answer it gives.
  A collaborator whose failure the source catches or the specification names
  (reading and parsing the manifest, validating it, the subkey exchange, spawning the
  installer, the launcher) answers with an error or a value; the others answer.
  Two of them may answer with nothing (\<^verbatim>\<open>null\<close>): \<open>gameLazily\<close>, the game lookup,
  and \<open>sniff\<close>, which is \<^verbatim>\<open>fnout.path\<close> and has nothing to say of a file whose
  signature it does not know. \<open>launcher\<close> is the registry entry called with the launch
  type, and the four \<open>now\<close> fields are what \<^verbatim>\<open>Date.now()\<close> reads at its four calls
  outside the timer (in milliseconds). A launcher's run tells which ticks of the
  playtime timer fired before it settled (the clock reading of each) and how it
  settled; nobody else writes to the store meanwhile.
\<close>

record world =
  itchPlatform :: string
  actionForGame :: "cave \<Rightarrow> string"
  gameLazily :: "cave \<Rightarrow> game option"
  appPath :: "cave \<Rightarrow> string"
  joinPath :: "string \<Rightarrow> string \<Rightarrow> string"
  configureTask :: "game \<Rightarrow> cave \<Rightarrow> (string \<rightharpoonup> cave) \<Rightarrow> (string \<rightharpoonup> cave)"
  manifestExists :: "string \<Rightarrow> bool"
  readManifest :: "string \<Rightarrow> error + manifest"
  validateManifest :: "manifest \<Rightarrow> error option"
  defaultManifestIcons :: "string \<rightharpoonup> string"
  promisedModal :: "modal \<Rightarrow> modal_response"
  sniff :: "string \<Rightarrow> sniff_result option"
  subkey :: "string \<Rightarrow> int \<Rightarrow> string \<Rightarrow> error + subkey_response"
  spawn :: "string \<Rightarrow> string list \<Rightarrow> spawn_run"
  launcher :: "string \<Rightarrow> start_opts \<Rightarrow> launch_run"
  nowOpened :: int
  nowStarted :: int
  nowCaught :: int
  nowFinished :: int

datatype 'a step = Continue 'a | Return | Throw error

datatype outcome = Done | Failed error

definition emit :: "event \<Rightarrow> state \<Rightarrow> state" where
  "emit e s = s\<lparr>trace := trace s @ [e]\<rparr>"

definition truthy :: "string option \<Rightarrow> bool" where
  "truthy x = (case x of None \<Rightarrow> False | Some v \<Rightarrow> v \<noteq> [])"

subsection \<open>The store\<close>

definition emptyCave :: "string \<Rightarrow> cave" where
  "emptyCave cid =
     \<lparr>caveId = cid, launchType = None, executables = None, gamePath = None,
      uploadId = None, uploads = None,
      secondsRun = None, lastTouched = None, installedUE4Prereq = False\<rparr>"

definition getEntity :: "string \<Rightarrow> state \<Rightarrow> cave option" where
  "getEntity cid s = caves s cid"

text \<open>
  Modelled from the spec: the store's save operation, which is not among the sources.
  It is a read-modify-write keyed by id: the given fields are merged into the stored
  record and the others are kept; a record not yet stored starts with every optional
  field absent.
\<close>

definition saveEntity :: "string \<Rightarrow> (cave \<Rightarrow> cave) \<Rightarrow> state \<Rightarrow> state" where
  "saveEntity cid upd s =
     s\<lparr>caves := (caves s)(cid \<mapsto>
          upd (case caves s cid of None \<Rightarrow> emptyCave cid | Some c \<Rightarrow> c))\<rparr>"


section \<open>The launch task\<close>

text \<open>
  The source is the launch task (\<^verbatim>\<open>src/unnamed/part_000\<close>): \<open>caveProblem\<close> (lines
  57 to 73), \<open>doStart\<close> (123 to 330), \<open>launchTypeForAction\<close> (332 to 355) and
  \<open>appExt\<close> (357 to 363). The wrapper \<open>start\<close>, which reports what \<open>doStart\<close> throws,
  is not needed below. A JavaScript value tested for truth is an option here, absent
  for \<^verbatim>\<open>undefined\<close>, and \<open>truthy\<close> is the test on a string that may be absent.
\<close>

subsection \<open>Diagnosing the install\<close>

definition caveProblem :: "cave \<Rightarrow> string list option" where
  "caveProblem c =
     (if launchType c = Some ''native'' then
        (if executables c = None \<or> executables c = Some []
         then Some [''game.install.no_executables_found''] else None)
      else if launchType c = Some ''html'' then
        (if \<not> truthy (gamePath c)
         then Some [''game.install.no_html_index_found''] else None)
      else None)"

subsection \<open>Classifying an action\<close>

definition appExt :: "string \<Rightarrow> string" where
  "appExt platform =
     (if platform = ''osx'' then ''.app''
      else if platform = ''windows'' then ''.exe''
      else [])"

text \<open>
  \<^verbatim>\<open>String.prototype.replace\<close> with a pattern that has no flag and stands for one
  literal text: the first occurrence is replaced, the rest is kept.
\<close>

fun replaceFirst :: "string \<Rightarrow> string \<Rightarrow> string \<Rightarrow> string" where
  "replaceFirst pat rep [] = (if pat = [] then rep else [])"
| "replaceFirst pat rep (c # cs) =
     (if prefix pat (c # cs) then rep @ drop (length pat) (c # cs)
      else c # replaceFirst pat rep cs)"

text \<open>
  Lines 332 to 355. The answer of the sniffer is read without a test (line 349):
  when it is \<^verbatim>\<open>null\<close> the read throws.
\<close>

definition launchTypeForAction ::
  "world \<Rightarrow> string \<Rightarrow> string \<Rightarrow> state \<Rightarrow> (error + string) \<times> state" where
  "launchTypeForAction w appDir actionPath s =
     (if test nativeExtRe actionPath then (Inr ''native'', s)
      else if test htmlExtRe actionPath then (Inr ''html'', s)
      else if test urlRe actionPath then (Inr ''external'', s)
      else
        (let platform = itchPlatform w;
             fullPath = joinPath w appDir actionPath;
             s1 = emit (Sniff fullPath) s
         in case sniff w fullPath of
              None \<Rightarrow> (Inl (TypeError ''linuxExecutable''), s1)
            | Some sniffRes \<Rightarrow>
                if (linuxExecutable sniffRes \<and> platform = ''linux'')
                   \<or> (macExecutable sniffRes \<and> platform = ''osx'')
                then (Inr ''native'', s1)
                else (Inr ''shell'', s1)))"

subsection \<open>The stages of \<open>doStart\<close>\<close>

text \<open>
  \<open>doStart\<close> is one function in the source; its body is cut here into the stretches
  it runs one after the other, each named after what it does, and \<open>doStart\<close> below
  chains them. A stage ends in \<open>Continue\<close> with what the next one needs, in
  \<open>Return\<close> where the source returns early, or in \<open>Throw\<close> where it throws.
\<close>

text \<open>
  Lines 145 to 166: the diagnostic, the reconfiguration, the second diagnostic and
  the line that announces the launch. The arguments of the task are built before it
  is called (lines 148 to 154): \<^verbatim>\<open>game.id\<close> is read first, then
  \<^verbatim>\<open>cave.uploads[cave.uploadId]\<close>, and each read throws when what it reads from is
  absent, in which case the task is not called. The record is read back from the
  store after the task; reading a field of a record the store does not hold is a
  type error, and so is reading the id of an absent game for the announcement.
\<close>

definition checkAndRepair ::
  "world \<Rightarrow> game option \<Rightarrow> cave \<Rightarrow> state \<Rightarrow> (cave \<times> game) step \<times> state" where
  "checkAndRepair w game c s =
     (let (r, s1) =
        (case caveProblem c of
           Some problem \<Rightarrow>
             (let s0 = emit (Log (Reconfiguring problem)) s
              in case game of
                   None \<Rightarrow> (Inl (TypeError ''id''), s0)
                 | Some g \<Rightarrow>
                     (case uploads c of
                        None \<Rightarrow> (Inl (TypeError ''uploads''), s0)
                      | Some ups \<Rightarrow>
                          (let upload = (case uploadId c of None \<Rightarrow> None | Some u \<Rightarrow> map_of ups u);
                               s' = emit (Configure g c upload) s0;
                               s'' = s'\<lparr>caves := configureTask w g c (caves s')\<rparr>
                           in case getEntity (caveId c) s'' of
                                None \<Rightarrow> (Inl (TypeError ''launchType''), s'')
                              | Some c1 \<Rightarrow> (Inr c1, s''))))
         | None \<Rightarrow> (Inr c, s))
      in case r of
           Inl e \<Rightarrow> (Throw e, s1)
         | Inr c2 \<Rightarrow>
             (case caveProblem c2 of
                Some problem \<Rightarrow> (Throw (CouldNotLaunch problem), s1)
              | None \<Rightarrow>
                  (case game of
                     None \<Rightarrow> (Throw (TypeError ''id''), s1)
                   | Some g \<Rightarrow>
                       (Continue (c2, g), emit (Log (LaunchingGame (gid g) (title g))) s1))))"

text \<open>
  Lines 202 to 212: the chooser's buttons, one per action, stopping at the first
  action with no name.
\<close>

fun bigButtonsFor :: "world \<Rightarrow> nat \<Rightarrow> manifest_action list \<Rightarrow> error + button list" where
  "bigButtonsFor w i [] = Inr []"
| "bigButtonsFor w i (a # as) =
     (case name a of
        None \<Rightarrow> Inl (MissingActionName i)
      | Some n \<Rightarrow>
          if n = [] then Inl (MissingActionName i)
          else
            (case bigButtonsFor w (Suc i) as of
               Inl e \<Rightarrow> Inl e
             | Inr bs \<Rightarrow>
                 Inr (\<lparr>label = ''action.name.'' @ n,
                       response = n,
                       buttonIcon =
                         (if truthy (icon a) then the (icon a)
                          else if truthy (defaultManifestIcons w n) then the (defaultManifestIcons w n)
                          else ''star''),
                       className = ''action-'' @ n\<rparr> # bs)))"

definition findWhere :: "manifest_action list \<Rightarrow> string \<Rightarrow> manifest_action option" where
  "findWhere as n = find (\<lambda>a. name a = Some n) as"

text \<open>
  Lines 191 to 232: which action of a parsed and validated manifest runs, and, in
  \<open>resolveManifest\<close>, lines 168 to 235 around it. \<open>action\<close> is what
  \<open>actionForGame\<close> answered at the top of \<open>doStart\<close>: it is the variable the source
  tests after looking the requested name up.
\<close>

definition pickAction ::
  "world \<Rightarrow> start_opts \<Rightarrow> game \<Rightarrow> string \<Rightarrow> manifest \<Rightarrow> state
     \<Rightarrow> manifest_action option step \<times> state" where
  "pickAction w opts g action m s =
     (if length (actions m) > 1 then
        (if truthy (manifestActionName opts) then
           (let found = findWhere (actions m) (the (manifestActionName opts))
            in if action = [] then
                 (Return,
                  emit (Log (PickedInvalidAction (the (manifestActionName opts)) (actions m))) s)
               else (Continue found, s))
         else
           (case bigButtonsFor w 0 (actions m) of
              Inl e \<Rightarrow> (Throw e, s)
            | Inr bs \<Rightarrow>
                (let spec = \<lparr>modalTitle = title g,
                             cover = (if truthy (stillCoverUrl g) then stillCoverUrl g else coverUrl g),
                             bigButtons = bs,
                             buttons = [''cancel'']\<rparr>;
                     s1 = emit (PromisedModal spec) s
                 in case promisedModal w spec of
                      ModalResponse n \<Rightarrow> (Continue (findWhere (actions m) n), s1)
                    | Dismissed \<Rightarrow> (Return, s1))))
      else (Continue (case actions m of [] \<Rightarrow> None | a # _ \<Rightarrow> Some a), s))"

definition resolveManifest ::
  "world \<Rightarrow> start_opts \<Rightarrow> game \<Rightarrow> string \<Rightarrow> string \<Rightarrow> state
     \<Rightarrow> manifest_action option step \<times> state" where
  "resolveManifest w opts g action appDir s =
     (let manifestPath = joinPath w appDir ''.itch.toml'';
          s1 = emit (Log (LookingForManifest manifestPath)) s
      in if manifestExists w manifestPath then
           (let s2 = emit (Log FoundManifest) s1
            in case readManifest w manifestPath of
                 Inl e \<Rightarrow> (Throw e, emit (Log (ErrorReadingManifest e)) s2)
               | Inr m \<Rightarrow>
                   (let s3 = emit (Log (ManifestContents m)) s2
                    in case validateManifest w m of
                         Some e \<Rightarrow> (Throw e, s3)
                       | None \<Rightarrow> pickAction w opts g action m s3))
         else (Continue None, emit (Log NoManifestFound) s1))"


text \<open>
  Lines 237 to 255, what a resolved action contributes (a throw of the
  classification ends the stage before the subkey is asked for): its path with the extension placeholder
  filled in, the launch type of that path, the subkey when it names a scope, and
  its arguments. Without an action the launch type read from the record stays.
\<close>

definition applyAction ::
  "world \<Rightarrow> game \<Rightarrow> string \<Rightarrow> string \<Rightarrow> string \<Rightarrow> manifest_action option \<Rightarrow> state
     \<Rightarrow> (string \<times> (string \<times> string) list \<times> string list \<times> manifest_action option) step \<times> state" where
  "applyAction w g apiKey appDir lt0 ma s =
     (case ma of
        None \<Rightarrow> (Continue (lt0, [], [], None), s)
      | Some a \<Rightarrow>
          (let a1 = a\<lparr>path := replaceFirst ''{{EXT}}'' (appExt (itchPlatform w)) (path a)\<rparr>;
               extra = (case args a1 of None \<Rightarrow> [] | Some xs \<Rightarrow> xs)
           in case launchTypeForAction w appDir (path a1) s of
                (Inl e, s1) \<Rightarrow> (Throw e, s1)
              | (Inr lt, s1) \<Rightarrow>
                  if truthy (scope a1) then
                    (let sc = the (scope a1);
                         s2 = emit (Subkey apiKey (gid g) sc) (emit (Log (RequestingSubkey sc)) s1)
                     in case subkey w apiKey (gid g) sc of
                          Inl e \<Rightarrow> (Throw e, s2)
                        | Inr sk \<Rightarrow>
                            (Continue (lt,
                                       [(''ITCHIO_API_KEY'', key sk),
                                        (''ITCHIO_API_KEY_EXPIRES_AT'', expiresAt sk)],
                                       extra, Some a1),
                             emit (Log (GotSubkey (length (key sk)))) s2))
                  else (Continue (lt, [], extra, Some a1), s1)))"

definition launchers :: "string list" where
  "launchers = [''native'', ''html'', ''shell'', ''external'']"

text \<open>
  Lines 272 to 299: the one-time prerequisite installer. What the source catches ends
  in \<open>Continue\<close>; the first read of the stored record stands before the
  \<^verbatim>\<open>try\<close>. The lines the installer prints are logged as they come, \<open>True\<close> marking
  one from its error stream.
\<close>

definition ue4Prereq :: "world \<Rightarrow> cave \<Rightarrow> string \<Rightarrow> state \<Rightarrow> unit step \<times> state" where
  "ue4Prereq w c appDir s =
     (if itchPlatform w = ''windows'' then
        (case getEntity (caveId c) s of
           None \<Rightarrow> (Throw (TypeError ''installedUE4Prereq''), s)
         | Some stored \<Rightarrow>
             if \<not> installedUE4Prereq stored then
               (let s1 = emit (Log LookingForPrereq) s
                in case find (test ue4PrereqRe)
                          (case executables stored of None \<Rightarrow> [] | Some xs \<Rightarrow> xs) of
                     None \<Rightarrow> (Continue (), s1)
                   | Some reqFile \<Rightarrow>
                       (let s2 = emit (Log (LaunchingInstaller reqFile)) s1;
                            command = joinPath w appDir reqFile;
                            run = spawn w command [''/quiet'', ''/norestart''];
                            s3 = foldl (\<lambda>st (isErr, tok).
                                          emit (Log (if isErr then PrereqErr tok else PrereqOut tok)) st)
                                   (emit (Spawn command [''/quiet'', ''/norestart'']) s2)
                                   (tokens run)
                        in case exit run of
                             Inl e \<Rightarrow> (Continue (), emit (Log (PrereqError (caveId c) e)) s3)
                           | Inr code \<Rightarrow>
                               if code = 0 then
                                 (Continue (),
                                  saveEntity (caveId c) (\<lambda>x. x\<lparr>installedUE4Prereq := True\<rparr>)
                                    (emit (Log PrereqInstalled) s3))
                               else (Continue (), emit (Log (PrereqExitCode code)) s3)))
             else (Continue (), s))
      else (Continue (), s))"

definition UPDATE_PLAYTIME_INTERVAL :: int where
  "UPDATE_PLAYTIME_INTERVAL = 10"

text \<open>
  Lines 307 to 312: one firing of the playtime timer, \<open>now\<close> being the clock it reads. A record the
  store does not hold makes the callback throw before it saves anything.
\<close>

definition playtimeTick :: "string \<Rightarrow> int \<Rightarrow> state \<Rightarrow> state" where
  "playtimeTick cid now s =
     (case getEntity cid s of
        None \<Rightarrow> s
      | Some stored \<Rightarrow>
          (let previousSecondsRun = (case secondsRun stored of None \<Rightarrow> 0 | Some n \<Rightarrow> n);
               newSecondsRun = UPDATE_PLAYTIME_INTERVAL + previousSecondsRun
           in saveEntity cid (\<lambda>x. x\<lparr>secondsRun := Some newSecondsRun, lastTouched := Some now\<rparr>) s))"

definition isCrash :: "error \<Rightarrow> bool" where
  "isCrash e = (case e of Crash _ \<Rightarrow> True | _ \<Rightarrow> False)"

text \<open>
  Lines 301 to 329, the supervised launch: the start timestamp, the timer and the launcher, then the
  \<^verbatim>\<open>catch\<close> and the \<^verbatim>\<open>finally\<close>. The elapsed time is the difference of two clock
  readings in milliseconds divided by 1000; it is kept as a rational, which orders
  against 2 as the quotient in double precision does.
\<close>

definition supervise :: "world \<Rightarrow> cave \<Rightarrow> string \<Rightarrow> start_opts \<Rightarrow> state \<Rightarrow> outcome \<times> state" where
  "supervise w c lt gameOpts s =
     (let startedAt = nowStarted w;
          s1 = saveEntity (caveId c) (\<lambda>x. x\<lparr>lastTouched := Some startedAt\<rparr>) s;
          run = launcher w lt gameOpts;
          s2 = foldl (\<lambda>st now. playtimeTick (caveId c) now st) (emit (Launcher lt gameOpts) s1) (fired run);
          (res, s3) =
            (case failure run of
               None \<Rightarrow> (Done, s2)
             | Some e \<Rightarrow>
                 (let s' = emit (Log (LaunchError (caveId c) e)) s2;
                      secondsRunning = (of_int (nowCaught w - startedAt) / 1000 :: rat)
                  in if isCrash e \<and> secondsRunning > 2
                     then (Done, emit (Log (IgnoringCrash secondsRunning e)) s')
                     else (Failed e, s')))
      in (res, saveEntity (caveId c) (\<lambda>x. x\<lparr>lastTouched := Some (nowFinished w)\<rparr>) s3))"

subsection \<open>\<open>doStart\<close>\<close>

text \<open>
  \<open>andThen\<close> passes a stage's result on: the next stage runs after \<open>Continue\<close>, an
  early return ends the attempt as \<open>Done\<close> and a throw as \<open>Failed\<close>, each with the
  state reached. \<open>doStart\<close> opens with the four \<^verbatim>\<open>invariant\<close> calls (lines 126 to
  129) and the open-folder case (136 to 141); the launch type kept for an attempt
  without manifest action is the one of the record the caller passed (line 143),
  while the unsupported-type error quotes the record read back (line 269).
\<close>

definition andThen ::
  "'a step \<times> state \<Rightarrow> ('a \<Rightarrow> state \<Rightarrow> outcome \<times> state) \<Rightarrow> outcome \<times> state" where
  "andThen r k =
     (case r of
        (Continue a, s) \<Rightarrow> k a s
      | (Return, s) \<Rightarrow> (Done, s)
      | (Throw e, s) \<Rightarrow> (Failed e, s))"

definition doStart :: "world \<Rightarrow> start_opts \<Rightarrow> state \<Rightarrow> outcome \<times> state" where
  "doStart w opts s =
     (case cave opts of
        None \<Rightarrow> (Failed (InvariantViolation ''launch has cave''), s)
      | Some c0 \<Rightarrow>
          if \<not> globalMarket opts then (Failed (InvariantViolation ''launch has globalMarket''), s)
          else if credentials opts = None then
            (Failed (InvariantViolation ''launch has credentials''), s)
          else if \<not> market opts then (Failed (InvariantViolation ''launch has market''), s)
          else
            (let game = gameLazily w c0;
                 action = actionForGame w c0
             in if action = ''open'' then
                  (Done,
                   emit (ExplorerOpen (appPath w c0))
                     (saveEntity (caveId c0) (\<lambda>x. x\<lparr>lastTouched := Some (nowOpened w)\<rparr>) s))
                else
                  (let lt0 = (case launchType c0 of None \<Rightarrow> ''native'' | Some t \<Rightarrow> t)
                   in andThen (checkAndRepair w game c0 s) (\<lambda>(c1, g) s2.
                      let appDir = appPath w c1
                      in andThen (resolveManifest w opts g action appDir s2) (\<lambda>ma s3.
                         andThen (applyAction w g (the (credentials opts)) appDir lt0 ma s3)
                           (\<lambda>(lt, environment, extra, ma1) s4.
                              let gameOpts = opts\<lparr>manifestAction := ma1, env := environment,
                                                 launchArgs := extra\<rparr>
                              in if lt \<notin> set launchers then
                                   (Failed (UnsupportedLaunchType (launchType c1)), s4)
                                 else andThen (ue4Prereq w c1 appDir s4) (\<lambda>_ s5.
                                        supervise w c1 lt gameOpts s5)))))))"

section \<open>Reading traces\<close>

text \<open>
  \<open>extends P s s'\<close>: the trace of \<open>s'\<close> is the trace of \<open>s\<close> followed by events that
  all satisfy \<open>P\<close>. \<open>quiet s\<close>: no launcher has been called so far.
\<close>

definition extends :: "(event \<Rightarrow> bool) \<Rightarrow> state \<Rightarrow> state \<Rightarrow> bool" where
  "extends P s s' = (\<exists>es. trace s' = trace s @ es \<and> (\<forall>e \<in> set es. P e))"

definition quiet :: "state \<Rightarrow> bool" where
  "quiet s = (\<forall>e \<in> set (trace s). \<not> is_Launcher e)"

section \<open>A concrete installation\<close>

text \<open>
  A Windows machine with one native install and no manifest, on which every
  collaborator answers plainly (the sniffer knows every file, as something that is
  not an executable); the examples below vary it field by field.
\<close>

definition exampleGame :: game where
  "exampleGame = \<lparr>gid = 7, title = ''Game'', stillCoverUrl = None, coverUrl = None\<rparr>"

definition exampleWorld :: world where
  "exampleWorld =
     \<lparr>itchPlatform = ''windows'',
      actionForGame = (\<lambda>_. ''launch''),
      gameLazily = (\<lambda>_. Some exampleGame),
      appPath = (\<lambda>c. ''/apps/'' @ caveId c),
      joinPath = (\<lambda>a b. a @ ''/'' @ b),
      configureTask = (\<lambda>_ _ cs. cs),
      manifestExists = (\<lambda>_. False),
      readManifest = (\<lambda>_. Inl (Failure ''ENOENT'')),
      validateManifest = (\<lambda>_. None),
      defaultManifestIcons = Map.empty,
      promisedModal = (\<lambda>_. Dismissed),
      sniff = (\<lambda>_. Some \<lparr>linuxExecutable = False, macExecutable = False\<rparr>),
      subkey = (\<lambda>_ _ _. Inl (Failure ''offline'')),
      spawn = (\<lambda>_ _. \<lparr>tokens = [], exit = Inr 0\<rparr>),
      launcher = (\<lambda>_ _. \<lparr>fired = [], failure = None\<rparr>),
      nowOpened = 0, nowStarted = 1000, nowCaught = 2000, nowFinished = 3000\<rparr>"

definition exampleCave :: cave where
  "exampleCave =
     \<lparr>caveId = ''c1'', launchType = Some ''native'', executables = Some [''Game.exe''],
      gamePath = None, uploadId = Some 3, uploads = Some [(3, ''game-win.zip'')],
      secondsRun = Some 120, lastTouched = None, installedUE4Prereq = False\<rparr>"

definition exampleOpts :: start_opts where
  "exampleOpts =
     \<lparr>cave = Some exampleCave, credentials = Some ''key'', market = True, globalMarket = True,
      manifestActionName = None, manifestAction = None, env = [], launchArgs = []\<rparr>"

definition exampleCaves :: "string \<rightharpoonup> cave" where
  "exampleCaves = [''c1'' \<mapsto> exampleCave]"

definition emptyState :: state where
  "emptyState = \<lparr>caves = Map.empty, trace = []\<rparr>"

text \<open>
  A manifest with two actions, the first of which asks for a scope, and a machine
  on which that manifest is found and the subkey exchange succeeds.
\<close>

definition twoActions :: manifest where
  "twoActions =
     \<lparr>actions = [\<lparr>name = Some ''play'', path = ''Game{{EXT}}'', icon = None, args = None,
                   scope = Some ''profile:me''\<rparr>,
                 \<lparr>name = Some ''editor'', path = ''Editor{{EXT}}'', icon = None,
                   args = Some [''--edit''], scope = None\<rparr>]\<rparr>"

definition manifestWorld :: "manifest \<Rightarrow> world" where
  "manifestWorld m =
     exampleWorld\<lparr>manifestExists := (\<lambda>_. True), readManifest := (\<lambda>_. Inr m),
                  subkey := (\<lambda>_ _ _. Inr \<lparr>key = ''sub'', expiresAt = ''2030-01-01''\<rparr>)\<rparr>"

text \<open>
  An install whose executables were never found; the same without its uploads table;
  and one that ships the prerequisite.
\<close>

definition brokenCave :: cave where
  "brokenCave = exampleCave\<lparr>executables := None\<rparr>"

definition bareCave :: cave where
  "bareCave = exampleCave\<lparr>executables := None, uploadId := None, uploads := None\<rparr>"

definition ue4Cave :: cave where
  "ue4Cave = exampleCave\<lparr>executables := Some [''Game.exe'', ''Engine/UE4PrereqSetup_x64.exe'']\<rparr>"

section \<open>Properties of the patterns\<close>

lemma canonicalize_lower [simp]:
  "canonicalize CHR ''a'' = CHR ''A''" "canonicalize CHR ''p'' = CHR ''P''"
  "canonicalize CHR ''e'' = CHR ''E''" "canonicalize CHR ''x'' = CHR ''X''"
  "canonicalize CHR ''b'' = CHR ''B''" "canonicalize CHR ''t'' = CHR ''T''"
  "canonicalize CHR ''s'' = CHR ''S''" "canonicalize CHR ''h'' = CHR ''H''"
  "canonicalize CHR ''m'' = CHR ''M''" "canonicalize CHR ''l'' = CHR ''L''"
  "canonicalize CHR '':'' = CHR '':''"
  by (simp_all add: canonicalize_def)

lemma canonicalize_dot: "canonicalize c = CHR ''.'' \<Longrightarrow> \<not> lineTerminator c"
  by (auto simp: lineTerminator_def canonicalize_def)

lemma test_endI:
  "suffix t p \<Longrightarrow> [] \<in> set (rxm (body re) t) \<Longrightarrow> \<not> bol re \<Longrightarrow> test re p"
  by (auto simp: test_def)

lemma native_match:
  assumes "\<not> lineTerminator c"
      and "map canonicalize suf \<in> set [''APP'', ''EXE'', ''BAT'', ''SH'']"
  shows "test nativeExtRe (pre @ c # suf)"
proof (rule test_endI)
  show "suffix (c # suf) (pre @ c # suf)" by (simp add: suffix_def)
  show "\<not> bol nativeExtRe" by (simp add: nativeExtRe_def)
  show "[] \<in> set (rxm (body nativeExtRe) (c # suf))"
    using assms by (auto simp: nativeExtRe_def map_eq_Cons_conv)
qed

lemma suffix_canonical:
  assumes "suffix e (map canonicalize p)"
  obtains pre q where "p = pre @ q" and "map canonicalize q = e"
proof -
  from assms obtain zs where "map canonicalize p = zs @ e" by (auto simp: suffix_def)
  then show ?thesis using that by (auto simp: map_eq_append_conv)
qed

lemma native_extension:
  assumes "\<exists>e \<in> set [''.APP'', ''.EXE'', ''.BAT'', ''.SH'']. suffix e (map canonicalize p)"
  shows "test nativeExtRe p"
proof -
  from assms obtain e where e: "e \<in> set [''.APP'', ''.EXE'', ''.BAT'', ''.SH'']"
    and sf: "suffix e (map canonicalize p)" by blast
  from sf obtain pre q where p: "p = pre @ q" and q: "map canonicalize q = e"
    by (rule suffix_canonical)
  from e q obtain c suf where "q = c # suf" "canonicalize c = CHR ''.''"
    "map canonicalize suf \<in> set [''APP'', ''EXE'', ''BAT'', ''SH'']"
    by (auto simp: map_eq_Cons_conv)
  then show ?thesis unfolding p using native_match [OF canonicalize_dot] by blast
qed

lemma html_match:
  assumes "\<not> lineTerminator c"
      and "map canonicalize suf \<in> set [''HTM'', ''HTML'']"
  shows "test htmlExtRe (pre @ c # suf)"
proof (rule test_endI)
  show "suffix (c # suf) (pre @ c # suf)" by (simp add: suffix_def)
  show "\<not> bol htmlExtRe" by (simp add: htmlExtRe_def)
  show "[] \<in> set (rxm (body htmlExtRe) (c # suf))"
    using assms by (auto simp: htmlExtRe_def map_eq_Cons_conv)
qed

lemma html_extension:
  assumes "\<exists>e \<in> set [''.HTM'', ''.HTML'']. suffix e (map canonicalize p)"
  shows "test htmlExtRe p"
proof -
  from assms obtain e where e: "e \<in> set [''.HTM'', ''.HTML'']"
    and sf: "suffix e (map canonicalize p)" by blast
  from sf obtain pre q where p: "p = pre @ q" and q: "map canonicalize q = e"
    by (rule suffix_canonical)
  from e q obtain c suf where "q = c # suf" "canonicalize c = CHR ''.''"
    "map canonicalize suf \<in> set [''HTM'', ''HTML'']"
    by (auto simp: map_eq_Cons_conv)
  then show ?thesis unfolding p using html_match [OF canonicalize_dot] by blast
qed

lemma url_prefix:
  assumes "prefix e (map canonicalize p)" and "e = ''HTTP://'' \<or> e = ''HTTPS://''"
  shows "test urlRe p"
proof -
  from assms(1) obtain zs where "map canonicalize p = e @ zs" by (auto simp: prefix_def)
  then obtain q r where p: "p = q @ r" and q: "map canonicalize q = e"
    by (auto simp: map_eq_append_conv)
  have "rxm (body urlRe) (q @ r) \<noteq> []"
    using assms(2) q by (auto simp: urlRe_def map_eq_Cons_conv)
  moreover have "bol urlRe" and "\<not> eol urlRe" by (simp_all add: urlRe_def)
  ultimately show ?thesis by (cases "rxm (body urlRe) (q @ r)") (auto simp: test_def p)
qed

section \<open>What each stage adds to the trace\<close>

lemma extends_refl [simp]: "extends P s s"
  by (simp add: extends_def)

lemma extends_trans: "extends P s s' \<Longrightarrow> extends P s' s'' \<Longrightarrow> extends P s s''"
  by (auto simp: extends_def)

lemma extends_mono: "extends P s s' \<Longrightarrow> (\<And>e. P e \<Longrightarrow> Q e) \<Longrightarrow> extends Q s s'"
  by (auto simp: extends_def)

lemma extends_emit: "P e \<Longrightarrow> extends P s s' \<Longrightarrow> extends P s (emit e s')"
  by (auto simp: extends_def emit_def)

lemma extends_emit0 [simp]: "extends P s (emit e s) = P e"
  by (auto simp: extends_def emit_def)

lemma extends_saveEntity [simp]: "extends P s (saveEntity cid u s') = extends P s s'"
  by (simp add: extends_def saveEntity_def)

lemma trace_emit [simp]: "trace (emit e s) = trace s @ [e]"
  by (simp add: emit_def)

lemma caves_emit [simp]: "caves (emit e s) = caves s"
  by (simp add: emit_def)

lemma trace_saveEntity [simp]: "trace (saveEntity cid u s) = trace s"
  by (simp add: saveEntity_def)

lemma launchTypeForAction_extends:
  "extends is_Sniff s (snd (launchTypeForAction w d p s))"
  by (simp add: launchTypeForAction_def Let_def split: option.splits)

lemma checkAndRepair_extends:
  "extends (\<lambda>e. is_Log e \<or> is_Configure e) s (snd (checkAndRepair w game c s))"
  by (auto simp: checkAndRepair_def Let_def extends_def split: option.splits)

lemma checkAndRepair_repairs:
  "filter is_Configure (trace (snd (checkAndRepair w game c s))) =
     filter is_Configure (trace s) @
       (case caveProblem c of
          None \<Rightarrow> []
        | Some pr \<Rightarrow>
            (case game of
               None \<Rightarrow> []
             | Some g \<Rightarrow>
                 (case uploads c of
                    None \<Rightarrow> []
                  | Some ups \<Rightarrow>
                      [Configure g c (case uploadId c of None \<Rightarrow> None | Some u \<Rightarrow> map_of ups u)])))"
  by (auto simp: checkAndRepair_def Let_def split: option.splits)

lemma pickAction_extends:
  "extends (\<lambda>e. is_Log e \<or> is_PromisedModal e) s (snd (pickAction w opts g a m s))"
  by (auto simp: pickAction_def Let_def split: sum.splits modal_response.splits)

lemma resolveManifest_extends:
  "extends (\<lambda>e. is_Log e \<or> is_PromisedModal e) s (snd (resolveManifest w opts g a d s))"
  unfolding resolveManifest_def Let_def
  by (auto split: sum.splits option.splits intro!: extends_emit
        intro: extends_trans [OF _ pickAction_extends])


lemma applyAction_extends:
  "extends (\<lambda>e. is_Log e \<or> is_Sniff e \<or> is_Subkey e) s (snd (applyAction w g k d lt0 ma s))"
proof (cases ma)
  case None
  then show ?thesis by (simp add: applyAction_def)
next
  case (Some a)
  let ?p = "replaceFirst ''{{EXT}}'' (appExt (itchPlatform w)) (path a)"
  obtain lt s1 where l: "launchTypeForAction w d ?p s = (lt, s1)" by (cases "launchTypeForAction w d ?p s")
  have "extends is_Sniff s s1" using launchTypeForAction_extends [of s w d ?p] by (simp add: l)
  then have e1: "extends (\<lambda>e. is_Log e \<or> is_Sniff e \<or> is_Subkey e) s s1"
    by (rule extends_mono) simp
  show ?thesis using e1
    by (auto simp: applyAction_def Some l Let_def split: sum.splits intro!: extends_emit)
qed

lemma tokens_extends:
  "extends is_Log s s' \<Longrightarrow>
   extends is_Log s
     (foldl (\<lambda>st (isErr, tok). emit (Log (if isErr then PrereqErr tok else PrereqOut tok)) st) s' ts)"
  by (induction ts arbitrary: s') (auto simp: extends_emit)

lemma tokens_caves:
  "caves (foldl (\<lambda>st (isErr, tok). emit (Log (if isErr then PrereqErr tok else PrereqOut tok)) st) s' ts)
     = caves s'"
  by (induction ts arbitrary: s') auto

lemma ue4Prereq_extends:
  "extends (\<lambda>e. is_Log e \<or> is_Spawn e) s (snd (ue4Prereq w c d s))"
proof -
  have tok: "extends (\<lambda>e. is_Log e \<or> is_Spawn e) s
     (foldl (\<lambda>st (isErr, tok). emit (Log (if isErr then PrereqErr tok else PrereqOut tok)) st)
        (emit (Spawn cmd as) (emit (Log (LaunchingInstaller r)) (emit (Log LookingForPrereq) s))) ts)"
    for cmd as r ts
  proof -
    let ?s' = "emit (Spawn cmd as) (emit (Log (LaunchingInstaller r)) (emit (Log LookingForPrereq) s))"
    have a: "extends (\<lambda>e. is_Log e \<or> is_Spawn e) s ?s'" by (auto intro!: extends_emit)
    have "extends is_Log ?s'
       (foldl (\<lambda>st (isErr, tok). emit (Log (if isErr then PrereqErr tok else PrereqOut tok)) st) ?s' ts)"
      by (rule tokens_extends) simp
    then have "extends (\<lambda>e. is_Log e \<or> is_Spawn e) ?s'
       (foldl (\<lambda>st (isErr, tok). emit (Log (if isErr then PrereqErr tok else PrereqOut tok)) st) ?s' ts)"
      by (rule extends_mono) simp
    with a show ?thesis by (rule extends_trans)
  qed
  show ?thesis
    unfolding ue4Prereq_def Let_def
    by (auto split: option.splits sum.splits intro!: extends_emit tok)
qed

lemma ticks_trace:
  "trace (foldl (\<lambda>st now. playtimeTick cid now st) s ts) = trace s"
  by (induction ts arbitrary: s) (auto simp: playtimeTick_def Let_def split: option.splits)

lemma supervise_trace:
  "\<exists>logs. trace (snd (supervise w c lt go s)) = trace s @ Launcher lt go # logs
           \<and> (\<forall>e \<in> set logs. is_Log e)"
  by (auto simp: supervise_def Let_def ticks_trace split: option.splits)

section \<open>Runs that reach the launcher\<close>

lemma quiet_extends:
  "extends P s s' \<Longrightarrow> quiet s \<Longrightarrow> (\<And>e. P e \<Longrightarrow> \<not> is_Launcher e) \<Longrightarrow> quiet s'"
  by (auto simp: extends_def quiet_def)

lemma quiet_emit: "quiet s \<Longrightarrow> \<not> is_Launcher e \<Longrightarrow> quiet (emit e s)"
  by (simp add: quiet_def)

lemma quiet_notin: "quiet s \<Longrightarrow> Launcher lt go \<notin> set (trace s)"
  by (auto simp: quiet_def)

lemma quiet_checkAndRepair: "quiet s \<Longrightarrow> quiet (snd (checkAndRepair w game c s))"
  using checkAndRepair_extends by (rule quiet_extends) auto

lemma quiet_resolveManifest: "quiet s \<Longrightarrow> quiet (snd (resolveManifest w opts g a d s))"
  using resolveManifest_extends by (rule quiet_extends) auto

lemma quiet_applyAction: "quiet s \<Longrightarrow> quiet (snd (applyAction w g k d lt0 ma s))"
  using applyAction_extends by (rule quiet_extends) auto

lemma quiet_ue4Prereq: "quiet s \<Longrightarrow> quiet (snd (ue4Prereq w c d s))"
  using ue4Prereq_extends by (rule quiet_extends) auto

lemma supervise_launcher:
  assumes "quiet s" and "Launcher lt' go' \<in> set (trace (snd (supervise w c lt go s)))"
  shows "lt' = lt \<and> go' = go"
proof -
  obtain logs where "trace (snd (supervise w c lt go s)) = trace s @ Launcher lt go # logs"
    and "\<forall>e \<in> set logs. is_Log e" using supervise_trace by blast
  with assms show ?thesis by (auto simp: quiet_def)
qed

lemma andThen_cases:
  assumes "Launcher lt go \<in> set (trace (snd (andThen r k)))"
      and "quiet (snd r)"
  obtains a where "r = (Continue a, snd r)" and "andThen r k = k a (snd r)"
  using assms by (cases r; cases "fst r") (auto simp: andThen_def dest: quiet_notin)

lemma doStart_reach:
  assumes L: "Launcher lt go \<in> set (trace (snd (doStart w opts s)))"
      and N: "quiet s"
  obtains c0 k c1 g s1 ma s3 environment extra ma1 s4 s5 where
    "cave opts = Some c0" "credentials opts = Some k" "globalMarket opts" "market opts"
    "actionForGame w c0 \<noteq> ''open''"
    "gameLazily w c0 = Some g"
    "checkAndRepair w (gameLazily w c0) c0 s = (Continue (c1, g), s1)"
    "resolveManifest w opts g (actionForGame w c0) (appPath w c1) s1 = (Continue ma, s3)"
    "applyAction w g k (appPath w c1)
        (case launchType c0 of None \<Rightarrow> ''native'' | Some t \<Rightarrow> t) ma s3
      = (Continue (lt, environment, extra, ma1), s4)"
    "go = opts\<lparr>manifestAction := ma1, env := environment, launchArgs := extra\<rparr>"
    "lt \<in> set launchers"
    "ue4Prereq w c1 (appPath w c1) s4 = (Continue (), s5)"
    "quiet s5"
    "doStart w opts s = supervise w c1 lt go s5"
proof -
  from L N obtain c0 where c0: "cave opts = Some c0"
    by (cases "cave opts") (auto simp: doStart_def dest: quiet_notin)
  from L N c0 have inv: "globalMarket opts" "credentials opts \<noteq> None" "market opts"
    by (auto simp: doStart_def dest: quiet_notin split: if_splits)
  then obtain k where k: "credentials opts = Some k" by auto
  let ?a = "actionForGame w c0"
  let ?lt0 = "case launchType c0 of None \<Rightarrow> ''native'' | Some t \<Rightarrow> t"
  have nopen: "?a \<noteq> ''open''"
  proof
    assume "?a = ''open''"
    with L N c0 inv show False
      by (auto simp: doStart_def Let_def quiet_def)
  qed
  let ?k3 = "\<lambda>c1 appDir (lt, environment, extra, ma1) s4.
               let gameOpts = opts\<lparr>manifestAction := ma1, env := environment, launchArgs := extra\<rparr>
               in if lt \<notin> set launchers then (Failed (UnsupportedLaunchType (launchType c1)), s4)
                  else andThen (ue4Prereq w c1 appDir s4) (\<lambda>_ s5. supervise w c1 lt gameOpts s5)"
  let ?k2 = "\<lambda>c1 g appDir ma s3. andThen (applyAction w g k appDir ?lt0 ma s3) (?k3 c1 appDir)"
  let ?k1 = "\<lambda>(c1, g) s2. let appDir = appPath w c1
                      in andThen (resolveManifest w opts g ?a appDir s2) (?k2 c1 g appDir)"
  let ?r1 = "checkAndRepair w (gameLazily w c0) c0 s"
  have D: "doStart w opts s = andThen ?r1 ?k1"
    using c0 inv k nopen by (simp add: doStart_def Let_def)
  from L have L1: "Launcher lt go \<in> set (trace (snd (andThen ?r1 ?k1)))"
    by (simp only: D)
  from L1 quiet_checkAndRepair [OF N] obtain cg where
    r1: "?r1 = (Continue cg, snd ?r1)" and D1: "andThen ?r1 ?k1 = ?k1 cg (snd ?r1)"
    by (rule andThen_cases)
  obtain c1 g where cg: "cg = (c1, g)" by (cases cg)
  have gm: "gameLazily w c0 = Some g"
    using r1 unfolding cg
    by (cases "checkAndRepair w (gameLazily w c0) c0 s")
       (auto simp: checkAndRepair_def Let_def split: option.splits sum.splits prod.splits)
  let ?s1 = "snd ?r1"
  let ?d = "appPath w c1"
  have q2: "quiet ?s1" using N by (rule quiet_checkAndRepair)
  let ?r2 = "resolveManifest w opts g ?a ?d ?s1"
  have q3: "quiet (snd ?r2)" using q2 by (rule quiet_resolveManifest)
  from L1 D1 have L2: "Launcher lt go \<in> set (trace (snd (andThen ?r2 (?k2 c1 g ?d))))"
    by (simp add: Let_def cg)
  from L2 q3 obtain ma where r2: "?r2 = (Continue ma, snd ?r2)"
    and D2: "andThen ?r2 (?k2 c1 g ?d) = ?k2 c1 g ?d ma (snd ?r2)"
    by (rule andThen_cases)
  let ?s3 = "snd ?r2"
  let ?r3 = "applyAction w g k ?d ?lt0 ma ?s3"
  have q4: "quiet (snd ?r3)" using q3 by (rule quiet_applyAction)
  from L2 D2 have L3: "Launcher lt go \<in> set (trace (snd (andThen ?r3 (?k3 c1 ?d))))"
    by simp
  from L3 q4 obtain res where r3: "?r3 = (Continue res, snd ?r3)"
    and D3: "andThen ?r3 (?k3 c1 ?d) = ?k3 c1 ?d res (snd ?r3)"
    by (rule andThen_cases)
  obtain lt' environment extra ma1 where res: "res = (lt', environment, extra, ma1)"
    by (cases res)
  let ?s4 = "snd ?r3"
  let ?go = "opts\<lparr>manifestAction := ma1, env := environment, launchArgs := extra\<rparr>"
  from L3 D3 res q4 have ltok: "lt' \<in> set launchers"
    by (auto simp: Let_def dest: quiet_notin split: if_splits)
  let ?r4 = "ue4Prereq w c1 ?d ?s4"
  have q5: "quiet (snd ?r4)" using q4 by (rule quiet_ue4Prereq)
  from L3 D3 res ltok
  have L4: "Launcher lt go \<in> set (trace (snd (andThen ?r4 (\<lambda>_ s5. supervise w c1 lt' ?go s5))))"
    by (simp add: Let_def)
  from L4 q5 obtain u where r4: "?r4 = (Continue u, snd ?r4)"
    and D4: "andThen ?r4 (\<lambda>_ s5. supervise w c1 lt' ?go s5) = supervise w c1 lt' ?go (snd ?r4)"
    by (rule andThen_cases)
  from L4 D4 q5 have same: "lt = lt' \<and> go = ?go"
    using supervise_launcher by metis
  have "doStart w opts s = supervise w c1 lt go (snd ?r4)"
    using D D1 D2 D3 D4 res ltok same by (simp add: Let_def cg)
  with that [of c0 k g c1 ?s1 ma ?s3 environment extra ma1 ?s4 "snd ?r4"]
  show ?thesis
    using c0 k inv nopen gm r1 r2 r3 r4 res ltok same q5 by (simp add: cg)
qed

lemmas eval_defs = doStart_def andThen_def checkAndRepair_def resolveManifest_def pickAction_def
  applyAction_def ue4Prereq_def supervise_def playtimeTick_def saveEntity_def getEntity_def
  emit_def caveProblem_def truthy_def launchers_def isCrash_def Let_def
  exampleWorld_def exampleGame_def exampleCave_def exampleOpts_def exampleCaves_def emptyCave_def
  UPDATE_PLAYTIME_INTERVAL_def findWhere_def launchTypeForAction_def appExt_def

lemma quiet_empty [simp]: "quiet \<lparr>caves = cs, trace = []\<rparr>"
  by (simp add: quiet_def)

lemma supervise_outcome:
  assumes "failure (launcher w lt go) = Some e"
  shows "fst (supervise w c lt go s) =
           (if isCrash e \<and> (of_int (nowCaught w - nowStarted w) / 1000 :: rat) > 2
            then Done else Failed e)"
    and "isCrash e \<and> (of_int (nowCaught w - nowStarted w) / 1000 :: rat) > 2 \<Longrightarrow>
         Log (IgnoringCrash (of_int (nowCaught w - nowStarted w) / 1000) e)
           \<in> set (trace (snd (supervise w c lt go s)))"
    and "Log (LaunchError (caveId c) e) \<in> set (trace (snd (supervise w c lt go s)))"
  using assms by (simp_all add: supervise_def Let_def)

section \<open>Events of a whole run\<close>

lemma andThen_extends:
  assumes "extends P s0 (snd r)"
      and "\<And>a. extends P (snd r) (snd (k a (snd r)))"
  shows "extends P s0 (snd (andThen r k))"
proof (cases r)
  case (Pair x s1)
  with assms show ?thesis
    by (cases x) (auto simp: andThen_def intro: extends_trans)
qed

lemma supervise_extends:
  "extends (\<lambda>e. is_Log e \<or> is_Launcher e) s (snd (supervise w c lt go s))"
  using supervise_trace [of w c lt go s] by (auto simp: extends_def)

lemma doStart_tail:
  assumes "cave opts = Some c0" "globalMarket opts" "credentials opts \<noteq> None" "market opts"
      and "actionForGame w c0 \<noteq> ''open''"
  shows "extends (\<lambda>e. \<not> is_Configure e \<and> \<not> is_ExplorerOpen e)
           (snd (checkAndRepair w (gameLazily w c0) c0 s)) (snd (doStart w opts s))"
proof -
  let ?P = "\<lambda>e. \<not> is_Configure e \<and> \<not> is_ExplorerOpen e"
  have sup: "extends ?P s' (snd (supervise w c lt go s'))" for s' c lt go
    using supervise_extends by (rule extends_mono) auto
  have pre: "extends ?P s' (snd (ue4Prereq w c d s'))" for s' c d
    using ue4Prereq_extends by (rule extends_mono) auto
  have app: "extends ?P s' (snd (applyAction w g k d lt0 ma s'))" for s' g k d lt0 ma
    using applyAction_extends by (rule extends_mono) auto
  have res: "extends ?P s' (snd (resolveManifest w opts g a d s'))" for s' g a d
    using resolveManifest_extends by (rule extends_mono) auto
  show ?thesis
    using assms
    by (auto simp: doStart_def Let_def split: prod.splits
          intro!: andThen_extends res app pre sup)
qed

lemma doStart_early:
  assumes "\<not> (\<exists>c0. cave opts = Some c0 \<and> globalMarket opts \<and> credentials opts \<noteq> None
                \<and> market opts \<and> actionForGame w c0 \<noteq> ''open'')"
  shows "extends is_ExplorerOpen s (snd (doStart w opts s))"
  using assms by (auto simp: doStart_def Let_def extends_def split: option.splits)

lemma extends_filter:
  "extends P s s' \<Longrightarrow> (\<And>e. P e \<Longrightarrow> \<not> Q e) \<Longrightarrow> filter Q (trace s') = filter Q (trace s)"
  by (auto simp: extends_def)

lemma applyAction_subkeys:
  "filter is_Subkey (trace (snd (applyAction w g k d lt0 ma s))) =
     filter is_Subkey (trace s) @
       (case ma of
          None \<Rightarrow> []
        | Some a \<Rightarrow>
            if truthy (scope a) then
              (case fst (launchTypeForAction w d
                           (replaceFirst ''{{EXT}}'' (appExt (itchPlatform w)) (path a)) s) of
                 Inl e \<Rightarrow> []
               | Inr lt \<Rightarrow> [Subkey k (gid g) (the (scope a))])
            else [])"
proof (cases ma)
  case None
  then show ?thesis by (simp add: applyAction_def)
next
  case (Some a)
  let ?p = "replaceFirst ''{{EXT}}'' (appExt (itchPlatform w)) (path a)"
  obtain lt s1 where l: "launchTypeForAction w d ?p s = (lt, s1)"
    by (cases "launchTypeForAction w d ?p s")
  have "extends is_Sniff s s1"
    using launchTypeForAction_extends [of s w d ?p] by (simp add: l)
  then have "filter is_Subkey (trace s1) = filter is_Subkey (trace s)"
    by (rule extends_filter) auto
  then show ?thesis
    by (auto simp: applyAction_def Some l Let_def split: sum.splits)
qed

lemma applyAction_subkeys_continue:
  assumes "applyAction w g k d lt0 ma s = (Continue res, s')"
  shows "filter is_Subkey (trace s') =
     filter is_Subkey (trace s) @
       (case ma of
          None \<Rightarrow> []
        | Some a \<Rightarrow> if truthy (scope a) then [Subkey k (gid g) (the (scope a))] else [])"
proof (cases ma)
  case None
  with assms show ?thesis by (simp add: applyAction_def)
next
  case (Some a)
  let ?p = "replaceFirst ''{{EXT}}'' (appExt (itchPlatform w)) (path a)"
  obtain r s1 where l: "launchTypeForAction w d ?p s = (r, s1)"
    by (cases "launchTypeForAction w d ?p s")
  from assms obtain lt where r: "r = Inr lt"
    by (cases r) (auto simp: applyAction_def Some l Let_def)
  show ?thesis
    using applyAction_subkeys [of w g k d lt0 ma s] assms by (simp add: Some l r)
qed

lemma applyAction_result:
  assumes "applyAction w g k d lt0 ma s = (Continue (lt, environment, extra, ma1), s')"
  shows "case ma1 of
           None \<Rightarrow> ma = None \<and> environment = []
         | Some a \<Rightarrow>
             (\<exists>a0. ma = Some a0 \<and> scope a0 = scope a) \<and>
             (if truthy (scope a)
              then \<exists>sk. subkey w k (gid g) (the (scope a)) = Inr sk
                        \<and> environment = [(''ITCHIO_API_KEY'', key sk),
                                         (''ITCHIO_API_KEY_EXPIRES_AT'', expiresAt sk)]
              else environment = [])"
proof (cases ma)
  case None
  with assms show ?thesis by (simp add: applyAction_def)
next
  case (Some a)
  let ?p = "replaceFirst ''{{EXT}}'' (appExt (itchPlatform w)) (path a)"
  obtain lt1 s1 where l: "launchTypeForAction w d ?p s = (lt1, s1)"
    by (cases "launchTypeForAction w d ?p s")
  from assms show ?thesis
    by (auto simp: applyAction_def Some l Let_def split: sum.splits if_splits)
qed

lemma bigButtonsFor_named:
  assumes "\<forall>a \<in> set as. truthy (name a)"
  shows "\<exists>bs. bigButtonsFor w i as = Inr bs \<and> map response bs = map (the \<circ> name) as"
  using assms
proof (induction as arbitrary: i)
  case Nil
  then show ?case by simp
next
  case (Cons a as)
  then obtain bs where "bigButtonsFor w (Suc i) as = Inr bs"
    "map response bs = map (the \<circ> name) as" by fastforce
  moreover from Cons.prems obtain n where "name a = Some n" "n \<noteq> []"
    by (auto simp: truthy_def split: option.splits)
  ultimately show ?case by simp
qed

lemma dispatch_extends:
  "extends (\<lambda>e. is_Log e \<or> is_Sniff e \<or> is_Subkey e \<or> is_Spawn e \<or> is_Launcher e) s3
     (snd (andThen (applyAction w g k d lt0 ma s3)
        (\<lambda>(lt, environment, extra, ma1) s4.
            let gameOpts = opts\<lparr>manifestAction := ma1, env := environment, launchArgs := extra\<rparr>
            in if lt \<notin> set launchers then (Failed (UnsupportedLaunchType (launchType c1)), s4)
               else andThen (ue4Prereq w c1 d s4) (\<lambda>_ s5. supervise w c1 lt gameOpts s5))))"
proof -
  let ?P = "\<lambda>e. is_Log e \<or> is_Sniff e \<or> is_Subkey e \<or> is_Spawn e \<or> is_Launcher e"
  have sup: "extends ?P s' (snd (supervise w c lt go s'))" for s' c lt go
    using supervise_extends by (rule extends_mono) auto
  have pre: "extends ?P s' (snd (ue4Prereq w c d s'))" for s' c d
    using ue4Prereq_extends by (rule extends_mono) auto
  have app: "extends ?P s' (snd (applyAction w g k d lt0 ma s'))" for s' g k d lt0 ma
    using applyAction_extends by (rule extends_mono) auto
  show ?thesis
    by (auto simp: Let_def split: prod.splits intro!: andThen_extends app pre sup)
qed

lemma tokens_trace:
  "\<exists>logs. trace (foldl (\<lambda>st (isErr, tok). emit (Log (if isErr then PrereqErr tok else PrereqOut tok)) st) s' ts)
            = trace s' @ logs \<and> (\<forall>e \<in> set logs. is_Log e)"
  using tokens_extends [of s' s' ts] by (simp add: extends_def)

lemmas example_defs = twoActions_def manifestWorld_def brokenCave_def bareCave_def ue4Cave_def

lemma game_exe_no_prereq: "\<not> test ue4PrereqRe ''Game.exe''"
  by code_simp

lemma explicit_name_never_cancels:
  assumes "length (actions m) > 1" and "truthy (manifestActionName opts)" and "action \<noteq> []"
  shows "pickAction w opts g action m s
           = (Continue (findWhere (actions m) (the (manifestActionName opts))), s)"
  using assms by (simp add: pickAction_def)

section \<open>What holds of the classification and of the repair\<close>

text \<open>
  The order of the checks in \<open>launchTypeForAction\<close>: dotted native endings and every
  path that passes the native test, then HTML, then URLs, then the sniffer. When
  the sniffer has an answer the last step is \<open>native\<close> or \<open>shell\<close>; when it has
  none the classification throws.
\<close>

lemma launchTypeForAction_order:
  "((\<exists>e \<in> set [''.APP'', ''.EXE'', ''.BAT'', ''.SH'']. suffix e (map canonicalize p))
      \<or> test nativeExtRe p
     \<longrightarrow> launchTypeForAction w d p s = (Inr ''native'', s))
   \<and> (\<not> test nativeExtRe p
        \<and> ((\<exists>e \<in> set [''.HTM'', ''.HTML'']. suffix e (map canonicalize p)) \<or> test htmlExtRe p)
     \<longrightarrow> launchTypeForAction w d p s = (Inr ''html'', s))
   \<and> (\<not> test nativeExtRe p \<and> \<not> test htmlExtRe p
        \<and> (prefix ''HTTP://'' (map canonicalize p) \<or> prefix ''HTTPS://'' (map canonicalize p)
            \<or> test urlRe p)
     \<longrightarrow> launchTypeForAction w d p s = (Inr ''external'', s))
   \<and> (\<not> test nativeExtRe p \<and> \<not> test htmlExtRe p \<and> \<not> test urlRe p
        \<and> sniff w (joinPath w d p) = Some r
     \<longrightarrow> launchTypeForAction w d p s =
           (Inr (if (linuxExecutable r \<and> itchPlatform w = ''linux'')
                    \<or> (macExecutable r \<and> itchPlatform w = ''osx'')
                 then ''native'' else ''shell''),
            emit (Sniff (joinPath w d p)) s))
   \<and> (\<not> test nativeExtRe p \<and> \<not> test htmlExtRe p \<and> \<not> test urlRe p
        \<and> sniff w (joinPath w d p) = None
     \<longrightarrow> launchTypeForAction w d p s =
           (Inl (TypeError ''linuxExecutable''), emit (Sniff (joinPath w d p)) s))"
  using native_extension [of p] html_extension [of p]
    url_prefix [of "''HTTP://''" p] url_prefix [of "''HTTPS://''" p]
  by (auto simp: launchTypeForAction_def Let_def)

text \<open>
  The repairs of a whole attempt: never more than one; none when the record shows
  no problem; exactly one when the diagnostic is reached with a problem and the
  arguments of the task can be built, and then a record that still shows a problem
  ends the attempt with that diagnostic; none, and a type error, when they cannot.
\<close>

lemma repairs_of_attempt:
  "let r = doStart w opts \<lparr>caves = cs, trace = []\<rparr>;
       repairs = filter is_Configure (trace (snd r))
   in length repairs \<le> 1
    \<and> (\<forall>c0. cave opts = Some c0 \<and> caveProblem c0 = None \<longrightarrow> repairs = [])
    \<and> (\<forall>c0 pr. cave opts = Some c0 \<and> globalMarket opts \<and> credentials opts \<noteq> None \<and> market opts
          \<and> actionForGame w c0 \<noteq> ''open'' \<and> caveProblem c0 = Some pr \<longrightarrow>
          (\<forall>g ups. gameLazily w c0 = Some g \<and> uploads c0 = Some ups \<longrightarrow>
             repairs = [Configure g c0 (case uploadId c0 of None \<Rightarrow> None | Some u \<Rightarrow> map_of ups u)]
             \<and> (\<forall>c2 pr2. configureTask w g c0 cs (caveId c0) = Some c2
                   \<and> caveProblem c2 = Some pr2 \<longrightarrow> fst r = Failed (CouldNotLaunch pr2)))
          \<and> (gameLazily w c0 = None \<longrightarrow> repairs = [] \<and> fst r = Failed (TypeError ''id''))
          \<and> (gameLazily w c0 \<noteq> None \<and> uploads c0 = None \<longrightarrow>
                repairs = [] \<and> fst r = Failed (TypeError ''uploads'')))"
proof -
  let ?s = "\<lparr>caves = cs, trace = []\<rparr>"
  let ?pre = "\<exists>c0. cave opts = Some c0 \<and> globalMarket opts \<and> credentials opts \<noteq> None
                \<and> market opts \<and> actionForGame w c0 \<noteq> ''open''"
  let ?R = "filter is_Configure (trace (snd (doStart w opts ?s)))"
  have early: "?R = []" if "\<not> ?pre"
    using extends_filter [OF doStart_early [OF that], of is_Configure ?s] by auto
  have late: "?R = filter is_Configure (trace (snd (checkAndRepair w (gameLazily w c0) c0 ?s)))"
    if "cave opts = Some c0" "globalMarket opts" "credentials opts \<noteq> None" "market opts"
       "actionForGame w c0 \<noteq> ''open''" for c0
    using extends_filter [OF doStart_tail [OF that], of is_Configure ?s] by auto
  note rep = checkAndRepair_repairs [where s = ?s, simplified]
  show ?thesis
    unfolding Let_def
  proof (intro conjI allI impI)
    show "length ?R \<le> 1"
    proof (cases ?pre)
      case True
      then show ?thesis using late rep by (auto split: option.splits)
    next
      case False
      then show ?thesis using early by simp
    qed
  next
    fix c0 assume a: "cave opts = Some c0 \<and> caveProblem c0 = None"
    show "?R = []"
    proof (cases ?pre)
      case True
      then show ?thesis using late [of c0] rep [of w "gameLazily w c0" c0] a by auto
    next
      case False
      then show ?thesis using early by simp
    qed
  next
    fix c0 pr g ups
    assume a: "cave opts = Some c0 \<and> globalMarket opts \<and> credentials opts \<noteq> None \<and> market opts
          \<and> actionForGame w c0 \<noteq> ''open'' \<and> caveProblem c0 = Some pr"
      and b: "gameLazily w c0 = Some g \<and> uploads c0 = Some ups"
    show "?R = [Configure g c0 (case uploadId c0 of None \<Rightarrow> None | Some u \<Rightarrow> map_of ups u)]"
      using a b late [of c0] rep [of w "gameLazily w c0" c0] by simp
    fix c2 pr2
    assume c: "configureTask w g c0 cs (caveId c0) = Some c2 \<and> caveProblem c2 = Some pr2"
    show "fst (doStart w opts ?s) = Failed (CouldNotLaunch pr2)"
      using a b c
      by (auto simp: doStart_def Let_def andThen_def checkAndRepair_def getEntity_def emit_def)
  next
    fix c0 pr
    assume a: "cave opts = Some c0 \<and> globalMarket opts \<and> credentials opts \<noteq> None \<and> market opts
          \<and> actionForGame w c0 \<noteq> ''open'' \<and> caveProblem c0 = Some pr"
      and b: "gameLazily w c0 = None"
    show "?R = []" using a b late [of c0] rep [of w "gameLazily w c0" c0] by simp
    show "fst (doStart w opts ?s) = Failed (TypeError ''id'')"
      using a b by (auto simp: doStart_def Let_def andThen_def checkAndRepair_def)
  next
    fix c0 pr
    assume a: "cave opts = Some c0 \<and> globalMarket opts \<and> credentials opts \<noteq> None \<and> market opts
          \<and> actionForGame w c0 \<noteq> ''open'' \<and> caveProblem c0 = Some pr"
      and b: "gameLazily w c0 \<noteq> None \<and> uploads c0 = None"
    show "?R = []" using a b late [of c0] rep [of w "gameLazily w c0" c0] by auto
    show "fst (doStart w opts ?s) = Failed (TypeError ''uploads'')"
      using a b by (auto simp: doStart_def Let_def andThen_def checkAndRepair_def)
  qed
qed

section \<open>The claims\<close>

subsection \<open>C1: an explicit action name that no action carries\<close>

text \<open>
  C1 says that a run which is given an action name, on a manifest of several actions
  none of which has that name, ends as a cancelled no-op: nothing is launched and the
  invalid pick is logged. The source looks the name up and then tests \<open>action\<close>, the
  answer of \<open>actionForGame\<close>, which is never empty once the open-folder case has been
  left behind; so the run goes on with no manifest action. Evaluated on the manifest
  \<open>twoActions\<close> with the requested name \<^verbatim>\<open>bogus\<close>: the run ends as \<open>Done\<close> after
  calling the native launcher, and the log has no invalid-pick entry.
\<close>

theorem explicit_name_mismatch_launches:
  "doStart (manifestWorld twoActions) (exampleOpts\<lparr>manifestActionName := Some ''bogus''\<rparr>)
     \<lparr>caves = exampleCaves, trace = []\<rparr>
   = (Done,
      \<lparr>caves = [''c1'' \<mapsto> exampleCave\<lparr>lastTouched := Some 3000\<rparr>],
       trace = [Log (LaunchingGame 7 ''Game''),
                Log (LookingForManifest ''/apps/c1/.itch.toml''),
                Log FoundManifest,
                Log (ManifestContents twoActions),
                Log LookingForPrereq,
                Launcher ''native'' (exampleOpts\<lparr>manifestActionName := Some ''bogus''\<rparr>)]\<rparr>)"
  by (simp add: eval_defs example_defs game_exe_no_prereq)

subsection \<open>C2: a crash after the grace window\<close>

text \<open>
  C2. Take a launch attempt whose trace shows the launcher called with some launch
  type and options, and let that call fail with \<open>e\<close>. The elapsed time is the clock
  read in the handler minus the recorded start, in seconds. If \<open>e\<close> is a \<open>Crash\<close> and
  more than 2 seconds elapsed, \<open>doStart\<close> ends as \<open>Done\<close> and the ignored crash is in
  the log. If \<open>e\<close> is a \<open>Crash\<close> and at most 2 seconds elapsed, it ends as \<open>Failed\<close>
  with that same error. If \<open>e\<close> is not a \<open>Crash\<close>, it ends as \<open>Failed\<close> with \<open>e\<close>
  whatever the elapsed time.
\<close>

theorem crash_grace_window:
  assumes "Launcher lt go \<in> set (trace (snd (doStart w opts \<lparr>caves = cs, trace = []\<rparr>)))"
      and "failure (launcher w lt go) = Some e"
  shows "let elapsed = (of_int (nowCaught w - nowStarted w) / 1000 :: rat);
             r = doStart w opts \<lparr>caves = cs, trace = []\<rparr>
         in (isCrash e \<and> elapsed > 2 \<longrightarrow>
               fst r = Done \<and> Log (IgnoringCrash elapsed e) \<in> set (trace (snd r)))
          \<and> (isCrash e \<and> elapsed \<le> 2 \<longrightarrow> fst r = Failed e)
          \<and> (\<not> isCrash e \<longrightarrow> fst r = Failed e)"
proof -
  from assms(1) obtain c1 s5 where
    "doStart w opts \<lparr>caves = cs, trace = []\<rparr> = supervise w c1 lt go s5"
    by (rule doStart_reach) simp_all
  then show ?thesis
    using supervise_outcome(1,2) [OF assms(2)] by (auto simp: Let_def)
qed

theorem crash_grace_window_witness:
  "Launcher ''native'' exampleOpts
     \<in> set (trace (snd (doStart
          (exampleWorld\<lparr>launcher := (\<lambda>_ _. \<lparr>fired = [], failure = Some (Crash ''segv'')\<rparr>),
                        nowCaught := 3001\<rparr>)
          exampleOpts \<lparr>caves = exampleCaves, trace = []\<rparr>)))
   \<and> failure (launcher
          (exampleWorld\<lparr>launcher := (\<lambda>_ _. \<lparr>fired = [], failure = Some (Crash ''segv'')\<rparr>),
                        nowCaught := 3001\<rparr>) ''native'' exampleOpts) = Some (Crash ''segv'')
   \<and> fst (doStart
          (exampleWorld\<lparr>launcher := (\<lambda>_ _. \<lparr>fired = [], failure = Some (Crash ''segv'')\<rparr>),
                        nowCaught := 3001\<rparr>)
          exampleOpts \<lparr>caves = exampleCaves, trace = []\<rparr>) = Done
   \<and> fst (doStart
          (exampleWorld\<lparr>launcher := (\<lambda>_ _. \<lparr>fired = [], failure = Some (Crash ''segv'')\<rparr>),
                        nowCaught := 3000\<rparr>)
          exampleOpts \<lparr>caves = exampleCaves, trace = []\<rparr>) = Failed (Crash ''segv'')
   \<and> fst (doStart
          (exampleWorld\<lparr>launcher := (\<lambda>_ _. \<lparr>fired = [], failure = Some (Failure ''EACCES'')\<rparr>),
                        nowCaught := 9000\<rparr>)
          exampleOpts \<lparr>caves = exampleCaves, trace = []\<rparr>) = Failed (Failure ''EACCES'')"
proof -
  let ?late = "exampleWorld\<lparr>launcher := (\<lambda>_ _. \<lparr>fired = [], failure = Some (Crash ''segv'')\<rparr>),
                           nowCaught := 3001\<rparr>"
  let ?soon = "exampleWorld\<lparr>launcher := (\<lambda>_ _. \<lparr>fired = [], failure = Some (Crash ''segv'')\<rparr>),
                           nowCaught := 3000\<rparr>"
  let ?other = "exampleWorld\<lparr>launcher := (\<lambda>_ _. \<lparr>fired = [], failure = Some (Failure ''EACCES'')\<rparr>),
                            nowCaught := 9000\<rparr>"
  let ?s = "\<lparr>caves = exampleCaves, trace = []\<rparr>"
  have l1: "Launcher ''native'' exampleOpts \<in> set (trace (snd (doStart ?late exampleOpts ?s)))"
    by (simp add: eval_defs)
  have l2: "Launcher ''native'' exampleOpts \<in> set (trace (snd (doStart ?soon exampleOpts ?s)))"
    by (simp add: eval_defs)
  have l3: "Launcher ''native'' exampleOpts \<in> set (trace (snd (doStart ?other exampleOpts ?s)))"
    by (simp add: eval_defs)
  have f1: "failure (launcher ?late ''native'' exampleOpts) = Some (Crash ''segv'')"
    and f2: "failure (launcher ?soon ''native'' exampleOpts) = Some (Crash ''segv'')"
    and f3: "failure (launcher ?other ''native'' exampleOpts) = Some (Failure ''EACCES'')"
    by (simp_all add: exampleWorld_def)
  have t: "nowStarted ?late = 1000" "nowCaught ?late = 3001" "nowStarted ?soon = 1000"
    "nowCaught ?soon = 3000"
    by (simp_all add: exampleWorld_def)
  show ?thesis
    using l1 f1 t
      crash_grace_window [OF l1 f1] crash_grace_window [OF l2 f2] crash_grace_window [OF l3 f3]
    by (simp add: Let_def isCrash_def)
qed

subsection \<open>C3: at most one repair\<close>

text \<open>
  C3 says that an attempt whose first diagnostic shows a problem runs the repair
  once, reads the record back, and fails with the second diagnostic if the problem
  is still there. The source builds the arguments of the task before it calls it,
  and among them reads \<^verbatim>\<open>cave.uploads[cave.uploadId]\<close> with no test, where the
  reinstall reactor tests \<^verbatim>\<open>!cave.uploads\<close> first. Evaluated on \<open>bareCave\<close>, a native
  install with no executables and no uploads table: the reconfiguration is
  announced in the log, the read throws, the task is never called, and the attempt
  fails with the type error instead of the diagnostic.
\<close>

theorem repair_skipped_without_uploads:
  "doStart exampleWorld (exampleOpts\<lparr>cave := Some bareCave\<rparr>)
     \<lparr>caves = [''c1'' \<mapsto> bareCave], trace = []\<rparr>
   = (Failed (TypeError ''uploads''),
      \<lparr>caves = [''c1'' \<mapsto> bareCave],
       trace = [Log (Reconfiguring [''game.install.no_executables_found''])]\<rparr>)"
  by (simp add: eval_defs example_defs)

subsection \<open>C4: the precedence of the launch-type checks\<close>

text \<open>
  C4 says that a path which fails the extension and URL checks is sniffed, and is
  \<open>shell\<close> unless the file is an executable of the current platform, so that on a
  platform that is neither linux nor osx every such path is \<open>shell\<close>. The source
  reads \<^verbatim>\<open>sniffRes.linuxExecutable\<close> with no test of \<^verbatim>\<open>sniffRes\<close>, and the sniffer
  answers \<^verbatim>\<open>null\<close> for a file whose signature it does not know. Evaluated on
  windows, on the path \<^verbatim>\<open>README\<close>, with a sniffer that has no answer: the file is
  sniffed and the classification throws a type error; it does not answer \<open>shell\<close>.
\<close>

theorem unknown_file_not_shell:
  "launchTypeForAction (exampleWorld\<lparr>sniff := (\<lambda>_. None)\<rparr>) ''/apps/c1'' ''README'' emptyState
     = (Inl (TypeError ''linuxExecutable''), emit (Sniff ''/apps/c1/README'') emptyState)"
proof -
  have "\<not> test nativeExtRe ''README''" "\<not> test htmlExtRe ''README''" "\<not> test urlRe ''README''"
    by code_simp+
  then show ?thesis
    by (simp add: launchTypeForAction_def exampleWorld_def Let_def)
qed

subsection \<open>C5: the subkey and the environment\<close>

text \<open>
  C5. Take a launch attempt whose trace shows the launcher called with options
  \<open>go\<close>. If the manifest action in \<open>go\<close> names a non-empty scope, then the subkey
  exchange was called exactly once in the attempt, for that scope, before the
  launcher; it answered with a key and an expiry; and the environment in \<open>go\<close> holds
  exactly these two under \<^verbatim>\<open>ITCHIO_API_KEY\<close> and \<^verbatim>\<open>ITCHIO_API_KEY_EXPIRES_AT\<close>. If
  there is no manifest action, or its scope is absent or empty, the exchange was
  never called and the environment is empty. Whether or not a launcher is reached,
  the stage that applies the resolved action calls the exchange exactly when the
  action names a non-empty scope and the classification of its path, which comes
  first, has not thrown.
\<close>

theorem subkey_iff_scope:
  "(Launcher lt go \<in> set (trace (snd (doStart w opts \<lparr>caves = cs, trace = []\<rparr>))) \<longrightarrow>
      (let tr = trace (snd (doStart w opts \<lparr>caves = cs, trace = []\<rparr>))
       in case manifestAction go of
            None \<Rightarrow> filter is_Subkey tr = [] \<and> env go = []
          | Some a \<Rightarrow>
              if truthy (scope a) then
                \<exists>c0 g k sk pre post.
                   cave opts = Some c0 \<and> gameLazily w c0 = Some g \<and> credentials opts = Some k
                 \<and> subkey w k (gid g) (the (scope a)) = Inr sk
                 \<and> filter is_Subkey tr = [Subkey k (gid g) (the (scope a))]
                 \<and> tr = pre @ Launcher lt go # post
                 \<and> Subkey k (gid g) (the (scope a)) \<in> set pre
                 \<and> env go = [(''ITCHIO_API_KEY'', key sk),
                             (''ITCHIO_API_KEY_EXPIRES_AT'', expiresAt sk)]
              else filter is_Subkey tr = [] \<and> env go = []))
   \<and> filter is_Subkey (trace (snd (applyAction w g apiKey d lt0 ma s))) =
       filter is_Subkey (trace s) @
         (case ma of
            None \<Rightarrow> []
          | Some a \<Rightarrow>
              if truthy (scope a) then
                (case fst (launchTypeForAction w d
                             (replaceFirst ''{{EXT}}'' (appExt (itchPlatform w)) (path a)) s) of
                   Inl e \<Rightarrow> []
                 | Inr t \<Rightarrow> [Subkey apiKey (gid g) (the (scope a))])
              else [])"
proof (intro conjI impI)
  show "filter is_Subkey (trace (snd (applyAction w g apiKey d lt0 ma s))) =
       filter is_Subkey (trace s) @
         (case ma of
            None \<Rightarrow> []
          | Some a \<Rightarrow>
              if truthy (scope a) then
                (case fst (launchTypeForAction w d
                             (replaceFirst ''{{EXT}}'' (appExt (itchPlatform w)) (path a)) s) of
                   Inl e \<Rightarrow> []
                 | Inr t \<Rightarrow> [Subkey apiKey (gid g) (the (scope a))])
              else [])"
    by (rule applyAction_subkeys)
next
  assume L: "Launcher lt go \<in> set (trace (snd (doStart w opts \<lparr>caves = cs, trace = []\<rparr>)))"
  let ?thesis = "let tr = trace (snd (doStart w opts \<lparr>caves = cs, trace = []\<rparr>))
       in case manifestAction go of
            None \<Rightarrow> filter is_Subkey tr = [] \<and> env go = []
          | Some a \<Rightarrow>
              if truthy (scope a) then
                \<exists>c0 g k sk pre post.
                   cave opts = Some c0 \<and> gameLazily w c0 = Some g \<and> credentials opts = Some k
                 \<and> subkey w k (gid g) (the (scope a)) = Inr sk
                 \<and> filter is_Subkey tr = [Subkey k (gid g) (the (scope a))]
                 \<and> tr = pre @ Launcher lt go # post
                 \<and> Subkey k (gid g) (the (scope a)) \<in> set pre
                 \<and> env go = [(''ITCHIO_API_KEY'', key sk),
                             (''ITCHIO_API_KEY_EXPIRES_AT'', expiresAt sk)]
              else filter is_Subkey tr = [] \<and> env go = []"

  let ?s = "\<lparr>caves = cs, trace = []\<rparr>"
  from L obtain c0 k c1 g s1 ma s3 environment extra ma1 s4 s5 where
    c0: "cave opts = Some c0" and k: "credentials opts = Some k"
    and gm: "gameLazily w c0 = Some g"
    and r1: "checkAndRepair w (gameLazily w c0) c0 ?s = (Continue (c1, g), s1)"
    and r2: "resolveManifest w opts g (actionForGame w c0) (appPath w c1) s1 = (Continue ma, s3)"
    and r3: "applyAction w g k (appPath w c1)
        (case launchType c0 of None \<Rightarrow> ''native'' | Some t \<Rightarrow> t) ma s3
      = (Continue (lt, environment, extra, ma1), s4)"
    and go: "go = opts\<lparr>manifestAction := ma1, env := environment, launchArgs := extra\<rparr>"
    and r4: "ue4Prereq w c1 (appPath w c1) s4 = (Continue (), s5)"
    and D: "doStart w opts ?s = supervise w c1 lt go s5"
    by (rule doStart_reach) simp_all
  let ?g = g
  have "extends (\<lambda>e. is_Log e \<or> is_Configure e) ?s s1"
    using checkAndRepair_extends [of ?s w "gameLazily w c0" c0] by (simp add: r1)
  then have "filter is_Subkey (trace s1) = filter is_Subkey (trace ?s)"
    by (rule extends_filter) auto
  then have t1: "filter is_Subkey (trace s1) = []" by simp
  have "extends (\<lambda>e. is_Log e \<or> is_PromisedModal e) s1 s3"
    using resolveManifest_extends [of s1 w opts ?g "actionForGame w c0" "appPath w c1"]
    by (simp add: r2)
  then have "filter is_Subkey (trace s3) = filter is_Subkey (trace s1)"
    by (rule extends_filter) auto
  then have t3: "filter is_Subkey (trace s3) = []"
    by (simp add: t1)
  have t4: "filter is_Subkey (trace s4) =
       (case ma of None \<Rightarrow> []
        | Some a \<Rightarrow> if truthy (scope a) then [Subkey k (gid ?g) (the (scope a))] else [])"
    using applyAction_subkeys_continue [OF r3] by (simp add: t3)
  have e5: "extends (\<lambda>e. is_Log e \<or> is_Spawn e) s4 s5"
    using ue4Prereq_extends [of s4 w c1 "appPath w c1"] by (simp add: r4)
  then have t5: "filter is_Subkey (trace s5) = filter is_Subkey (trace s4)"
    by (rule extends_filter) auto
  obtain logs where tr: "trace (snd (supervise w c1 lt go s5)) = trace s5 @ Launcher lt go # logs"
    and logs: "\<forall>e \<in> set logs. is_Log e" using supervise_trace by blast
  have tl: "filter is_Subkey logs = []" using logs by (auto simp: filter_empty_conv)
  have tfin: "filter is_Subkey (trace (snd (doStart w opts ?s))) = filter is_Subkey (trace s4)"
    by (simp add: D tr t5 tl)
  have mem: "x \<in> set (trace s5)" if "filter is_Subkey (trace s4) = [x]" for x
  proof -
    from that have "x \<in> set (filter is_Subkey (trace s5))" by (simp add: t5)
    then show ?thesis by simp
  qed
  note res = applyAction_result [OF r3]
  show ?thesis
  proof (cases ma1)
    case None
    with res have "ma = None" "environment = []" by simp_all
    then show ?thesis using None go tfin t4 by (simp add: Let_def)
  next
    case (Some a)
    with res obtain a0 where a0: "ma = Some a0" "scope a0 = scope a" by auto
    show ?thesis
    proof (cases "truthy (scope a)")
      case True
      with res Some obtain sk where sk: "subkey w k (gid ?g) (the (scope a)) = Inr sk"
        "environment = [(''ITCHIO_API_KEY'', key sk), (''ITCHIO_API_KEY_EXPIRES_AT'', expiresAt sk)]"
        by auto
      have f4: "filter is_Subkey (trace s4) = [Subkey k (gid ?g) (the (scope a))]"
        using t4 a0 True by simp
      show ?thesis
        using Some True go c0 gm k sk f4 tfin mem [OF f4] tr D
        by (auto simp: Let_def)
    next
      case False
      with res Some have "environment = []" by simp
      then show ?thesis using Some False go tfin t4 a0 by (simp add: Let_def)
    qed
  qed
qed

theorem subkey_iff_scope_witness:
  "Launcher ''native''
      (exampleOpts\<lparr>manifestActionName := Some ''play'',
                   manifestAction := Some \<lparr>name = Some ''play'', path = ''Game.exe'', icon = None,
                                            args = None, scope = Some ''profile:me''\<rparr>,
                   env := [(''ITCHIO_API_KEY'', ''sub''),
                           (''ITCHIO_API_KEY_EXPIRES_AT'', ''2030-01-01'')]\<rparr>)
     \<in> set (trace (snd (doStart (manifestWorld twoActions)
                            (exampleOpts\<lparr>manifestActionName := Some ''play''\<rparr>)
                            \<lparr>caves = exampleCaves, trace = []\<rparr>)))
   \<and> filter is_Subkey (trace (snd (doStart (manifestWorld twoActions)
                            (exampleOpts\<lparr>manifestActionName := Some ''play''\<rparr>)
                            \<lparr>caves = exampleCaves, trace = []\<rparr>)))
       = [Subkey ''key'' 7 ''profile:me'']
   \<and> Launcher ''native'' exampleOpts
       \<in> set (trace (snd (doStart exampleWorld exampleOpts \<lparr>caves = exampleCaves, trace = []\<rparr>)))
   \<and> filter is_Subkey (trace (snd (doStart exampleWorld exampleOpts
                                     \<lparr>caves = exampleCaves, trace = []\<rparr>))) = []"
proof -
  let ?o = "exampleOpts\<lparr>manifestActionName := Some ''play''\<rparr>"
  let ?go = "exampleOpts\<lparr>manifestActionName := Some ''play'',
                   manifestAction := Some \<lparr>name = Some ''play'', path = ''Game.exe'', icon = None,
                                            args = None, scope = Some ''profile:me''\<rparr>,
                   env := [(''ITCHIO_API_KEY'', ''sub''),
                           (''ITCHIO_API_KEY_EXPIRES_AT'', ''2030-01-01'')]\<rparr>"
  have n: "test nativeExtRe ''Game.exe''" by code_simp
  have h1: "Launcher ''native'' ?go
     \<in> set (trace (snd (doStart (manifestWorld twoActions) ?o \<lparr>caves = exampleCaves, trace = []\<rparr>)))"
    by (simp add: eval_defs example_defs game_exe_no_prereq n)
  have h2: "Launcher ''native'' exampleOpts
       \<in> set (trace (snd (doStart exampleWorld exampleOpts \<lparr>caves = exampleCaves, trace = []\<rparr>)))"
    by (simp add: eval_defs game_exe_no_prereq)
  have f: "manifestAction ?go = Some \<lparr>name = Some ''play'', path = ''Game.exe'', icon = None,
                                            args = None, scope = Some ''profile:me''\<rparr>"
    "manifestAction exampleOpts = None" "cave ?o = Some exampleCave" "credentials ?o = Some ''key''"
    "gameLazily (manifestWorld twoActions) exampleCave = Some exampleGame" "gid exampleGame = 7"
    by (simp_all add: exampleOpts_def manifestWorld_def exampleWorld_def exampleGame_def)
  show ?thesis
    using h1 h2 f subkey_iff_scope [THEN conjunct1, rule_format, OF h1]
      subkey_iff_scope [THEN conjunct1, rule_format, OF h2]
    by (auto simp: Let_def truthy_def)
qed

subsection \<open>C6: the chooser, and cancelling it\<close>

text \<open>
  C6. Take an attempt that gets past the diagnostic and finds a manifest that parses
  and validates, with more than one action, every action named, and no action name
  requested. Then the chooser is called exactly once in the whole attempt; its big
  buttons answer the names of all the actions, in order, and its only other button
  is \<^verbatim>\<open>cancel\<close>. If the chooser is dismissed, the attempt ends as \<open>Done\<close>, no
  launcher has been called, and the store is as the diagnostic left it.
\<close>

theorem chooser_once_cancel_noop:
  assumes "cave opts = Some c0" and "globalMarket opts" and "credentials opts = Some k"
      and "market opts" and "actionForGame w c0 \<noteq> ''open''"
      and "checkAndRepair w (gameLazily w c0) c0 \<lparr>caves = cs, trace = []\<rparr> = (Continue (c1, g), s1)"
      and "manifestExists w (joinPath w (appPath w c1) ''.itch.toml'')"
      and "readManifest w (joinPath w (appPath w c1) ''.itch.toml'') = Inr m"
      and "validateManifest w m = None"
      and "length (actions m) > 1"
      and "\<not> truthy (manifestActionName opts)"
      and "\<forall>a \<in> set (actions m). truthy (name a)"
  shows "let r = doStart w opts \<lparr>caves = cs, trace = []\<rparr>
         in \<exists>sp. filter is_PromisedModal (trace (snd r)) = [PromisedModal sp]
              \<and> map response (bigButtons sp) = map (the \<circ> name) (actions m)
              \<and> buttons sp = [''cancel'']
              \<and> (promisedModal w sp = Dismissed \<longrightarrow>
                    fst r = Done \<and> quiet (snd r) \<and> caves (snd r) = caves s1)"
proof -
  let ?s = "\<lparr>caves = cs, trace = []\<rparr>" and ?g = g
  let ?d = "appPath w c1"
  from bigButtonsFor_named [OF assms(12)] obtain bs where
    bs: "bigButtonsFor w 0 (actions m) = Inr bs" "map response bs = map (the \<circ> name) (actions m)"
    by blast
  let ?sp = "\<lparr>modalTitle = title ?g,
              cover = (if truthy (stillCoverUrl ?g) then stillCoverUrl ?g else coverUrl ?g),
              bigButtons = bs, buttons = [''cancel'']\<rparr>"
  let ?s2 = s1
  let ?s3 = "emit (Log (ManifestContents m)) (emit (Log FoundManifest)
               (emit (Log (LookingForManifest (joinPath w ?d ''.itch.toml''))) ?s2))"
  let ?s4 = "emit (PromisedModal ?sp) ?s3"
  have "extends (\<lambda>e. is_Log e \<or> is_Configure e) ?s s1"
    using checkAndRepair_extends [of ?s w "gameLazily w c0" c0] by (simp add: assms(6))
  then have "filter is_PromisedModal (trace s1) = filter is_PromisedModal (trace ?s)"
    by (rule extends_filter) auto
  then have t1: "filter is_PromisedModal (trace s1) = []" by simp
  have t4: "filter is_PromisedModal (trace ?s4) = [PromisedModal ?sp]"
    by (simp add: t1)
  have R: "resolveManifest w opts ?g (actionForGame w c0) ?d ?s2 =
        (case promisedModal w ?sp of
           ModalResponse n \<Rightarrow> (Continue (findWhere (actions m) n), ?s4)
         | Dismissed \<Rightarrow> (Return, ?s4))"
    using assms(7-11) bs(1)
    by (simp add: resolveManifest_def pickAction_def Let_def split: modal_response.splits)
  have D: "doStart w opts ?s =
      andThen (resolveManifest w opts ?g (actionForGame w c0) ?d ?s2)
        (\<lambda>ma s3. andThen (applyAction w ?g k ?d
                     (case launchType c0 of None \<Rightarrow> ''native'' | Some t \<Rightarrow> t) ma s3)
           (\<lambda>(lt, environment, extra, ma1) s4.
              let gameOpts = opts\<lparr>manifestAction := ma1, env := environment, launchArgs := extra\<rparr>
              in if lt \<notin> set launchers then (Failed (UnsupportedLaunchType (launchType c1)), s4)
                 else andThen (ue4Prereq w c1 ?d s4) (\<lambda>_ s5. supervise w c1 lt gameOpts s5)))"
    using assms(1-6) by (simp add: doStart_def Let_def andThen_def)
  have once: "filter is_PromisedModal (trace (snd (doStart w opts ?s))) = [PromisedModal ?sp]"
  proof (cases "promisedModal w ?sp")
    case Dismissed
    then show ?thesis using t4 by (simp add: D R andThen_def)
  next
    case (ModalResponse n)
    have "extends (\<lambda>e. is_Log e \<or> is_Sniff e \<or> is_Subkey e \<or> is_Spawn e \<or> is_Launcher e) ?s4
            (snd (doStart w opts ?s))"
      using dispatch_extends [of ?s4 w ?g k ?d _ "findWhere (actions m) n" opts c1]
      by (simp add: D R ModalResponse andThen_def)
    then have "filter is_PromisedModal (trace (snd (doStart w opts ?s)))
                 = filter is_PromisedModal (trace ?s4)"
      by (rule extends_filter) auto
    then show ?thesis using t4 by simp
  qed
  have q1: "quiet s1"
    using quiet_checkAndRepair [of ?s w "gameLazily w c0" c0] by (simp add: assms(6))
  have cancel: "fst (doStart w opts ?s) = Done \<and> quiet (snd (doStart w opts ?s))
                  \<and> caves (snd (doStart w opts ?s)) = caves s1"
    if "promisedModal w ?sp = Dismissed"
    using that q1 by (simp add: D R andThen_def quiet_def)
  show ?thesis
    unfolding Let_def using once bs(2) cancel by (intro exI [of _ ?sp]) simp
qed

theorem chooser_once_cancel_noop_witness:
  "checkAndRepair (manifestWorld twoActions) (gameLazily (manifestWorld twoActions) exampleCave)
      exampleCave \<lparr>caves = exampleCaves, trace = []\<rparr>
     = (Continue (exampleCave, exampleGame),
        \<lparr>caves = exampleCaves, trace = [Log (LaunchingGame 7 ''Game'')]\<rparr>)
   \<and> length (actions twoActions) > 1
   \<and> list_all (\<lambda>a. truthy (name a)) (actions twoActions)
   \<and> fst (doStart (manifestWorld twoActions) exampleOpts \<lparr>caves = exampleCaves, trace = []\<rparr>) = Done
   \<and> filter is_Launcher
         (trace (snd (doStart (manifestWorld twoActions) exampleOpts \<lparr>caves = exampleCaves, trace = []\<rparr>)))
       = []
   \<and> caves (snd (doStart (manifestWorld twoActions) exampleOpts \<lparr>caves = exampleCaves, trace = []\<rparr>))
       = exampleCaves"
proof -
  let ?w = "manifestWorld twoActions" and ?s = "\<lparr>caves = exampleCaves, trace = []\<rparr>"
  have a: "cave exampleOpts = Some exampleCave" "globalMarket exampleOpts"
    "credentials exampleOpts = Some ''key''" "market exampleOpts"
    "actionForGame ?w exampleCave \<noteq> ''open''"
    by (simp_all add: exampleOpts_def manifestWorld_def exampleWorld_def)
  have b: "checkAndRepair ?w (gameLazily ?w exampleCave) exampleCave ?s
             = (Continue (exampleCave, exampleGame),
                \<lparr>caves = exampleCaves, trace = [Log (LaunchingGame 7 ''Game'')]\<rparr>)"
    by (simp add: checkAndRepair_def caveProblem_def exampleCave_def manifestWorld_def
          exampleWorld_def exampleGame_def emit_def)
  have c: "manifestExists ?w (joinPath ?w (appPath ?w exampleCave) ''.itch.toml'')"
    "readManifest ?w (joinPath ?w (appPath ?w exampleCave) ''.itch.toml'') = Inr twoActions"
    "validateManifest ?w twoActions = None"
    by (simp_all add: manifestWorld_def exampleWorld_def)
  have d: "length (actions twoActions) > 1" "\<not> truthy (manifestActionName exampleOpts)"
    "\<forall>a \<in> set (actions twoActions). truthy (name a)"
    by (simp_all add: twoActions_def exampleOpts_def truthy_def)
  have e: "promisedModal ?w sp = Dismissed" for sp
    by (simp add: manifestWorld_def exampleWorld_def)
  have l: "list_all (\<lambda>a. truthy (name a)) (actions twoActions)"
    using d(3) by (simp add: list_all_iff)
  have q: "quiet s \<Longrightarrow> filter is_Launcher (trace s) = []" for s
    by (auto simp: quiet_def filter_empty_conv)
  show ?thesis
    using b d(1) l e q
      chooser_once_cancel_noop [OF a b c d, unfolded Let_def]
    by auto
qed

subsection \<open>C7: a manifest with one action\<close>

text \<open>
  C7. When the manifest declares exactly one action, that action is selected
  whatever the options say (a requested name is not even looked at) and the state
  is handed on untouched, so the chooser is not called; and a manifest that is found,
  parses and validates resolves to that action without any call to the chooser.
\<close>

theorem single_action_selected:
  assumes "actions m = [a]"
  shows "pickAction w opts g action m s = (Continue (Some a), s)
       \<and> (manifestExists w (joinPath w d ''.itch.toml'')
            \<and> readManifest w (joinPath w d ''.itch.toml'') = Inr m
            \<and> validateManifest w m = None
          \<longrightarrow> fst (resolveManifest w opts g action d s) = Continue (Some a)
              \<and> filter is_PromisedModal (trace (snd (resolveManifest w opts g action d s)))
                  = filter is_PromisedModal (trace s))"
  using assms by (simp add: pickAction_def resolveManifest_def Let_def)


theorem single_action_selected_witness:
  "actions \<lparr>actions = [\<lparr>name = Some ''play'', path = ''Game{{EXT}}'', icon = None,
                          args = None, scope = None\<rparr>]\<rparr>
     = [\<lparr>name = Some ''play'', path = ''Game{{EXT}}'', icon = None, args = None, scope = None\<rparr>]
   \<and> pickAction exampleWorld (exampleOpts\<lparr>manifestActionName := Some ''editor''\<rparr>)
        exampleGame ''launch''
        \<lparr>actions = [\<lparr>name = Some ''play'', path = ''Game{{EXT}}'', icon = None,
                      args = None, scope = None\<rparr>]\<rparr> emptyState
     = (Continue (Some \<lparr>name = Some ''play'', path = ''Game{{EXT}}'', icon = None,
                        args = None, scope = None\<rparr>), emptyState)
   \<and> fst (resolveManifest
        (manifestWorld \<lparr>actions = [\<lparr>name = Some ''play'', path = ''Game{{EXT}}'', icon = None,
                                     args = None, scope = None\<rparr>]\<rparr>)
        (exampleOpts\<lparr>manifestActionName := Some ''editor''\<rparr>)
        exampleGame ''launch'' ''/apps/c1'' emptyState)
     = Continue (Some \<lparr>name = Some ''play'', path = ''Game{{EXT}}'', icon = None,
                       args = None, scope = None\<rparr>)"
proof -
  let ?a = "\<lparr>name = Some ''play'', path = ''Game{{EXT}}'', icon = None, args = None, scope = None\<rparr>"
  let ?o = "exampleOpts\<lparr>manifestActionName := Some ''editor''\<rparr>"
  let ?w = "manifestWorld \<lparr>actions = [?a]\<rparr>"
  have h: "actions \<lparr>actions = [?a]\<rparr> = [?a]" by simp
  have m: "manifestExists ?w (joinPath ?w ''/apps/c1'' ''.itch.toml'')"
    "readManifest ?w (joinPath ?w ''/apps/c1'' ''.itch.toml'') = Inr \<lparr>actions = [?a]\<rparr>"
    "validateManifest ?w \<lparr>actions = [?a]\<rparr> = None"
    by (simp_all add: manifestWorld_def exampleWorld_def)
  show ?thesis
    using h m
      single_action_selected [OF h, of exampleWorld ?o exampleGame
        "''launch''" emptyState]
      single_action_selected [OF h, of ?w ?o exampleGame
        "''launch''" emptyState "''/apps/c1''"]
    by simp
qed

subsection \<open>C8: the playtime timer\<close>

text \<open>
  C8. One firing of the playtime timer reads the stored seconds (none counts as 0),
  adds 10, and saves the sum together with the clock it read as the last-touched
  time. From a stored 120, two firings with nothing else writing in between leave
  140 in the store; and a supervised launch during which the timer fires twice
  leaves 140 there as well.
\<close>

theorem playtime_tick_adds_ten:
  "(getEntity cid s = Some c \<longrightarrow>
      getEntity cid (playtimeTick cid now s) =
        Some (c\<lparr>secondsRun := Some (10 + (case secondsRun c of None \<Rightarrow> 0 | Some n \<Rightarrow> n)),
                lastTouched := Some now\<rparr>))
   \<and> (getEntity cid s = Some c \<and> secondsRun c = Some 120 \<longrightarrow>
        map_option secondsRun (getEntity cid (playtimeTick cid t2 (playtimeTick cid t1 s)))
          = Some (Some 140))
   \<and> (getEntity (caveId c') s = Some c \<and> secondsRun c = Some 120
        \<and> fired (launcher w lt go) = [t1, t2] \<longrightarrow>
        map_option secondsRun (getEntity (caveId c') (snd (supervise w c' lt go s)))
          = Some (Some 140))"
  by (auto simp: playtimeTick_def getEntity_def saveEntity_def Let_def supervise_def emit_def
        UPDATE_PLAYTIME_INTERVAL_def split: option.splits)

theorem playtime_tick_adds_ten_witness:
  "getEntity ''c1'' \<lparr>caves = exampleCaves, trace = []\<rparr> = Some exampleCave
   \<and> secondsRun exampleCave = Some 120
   \<and> fired (launcher (exampleWorld\<lparr>launcher := (\<lambda>_ _. \<lparr>fired = [11000, 21000], failure = None\<rparr>)\<rparr>)
        ''native'' exampleOpts) = [11000, 21000]
   \<and> map_option secondsRun
        (getEntity ''c1'' (playtimeTick ''c1'' 21000 (playtimeTick ''c1'' 11000
           \<lparr>caves = exampleCaves, trace = []\<rparr>))) = Some (Some 140)
   \<and> map_option secondsRun
        (getEntity ''c1''
           (snd (supervise (exampleWorld\<lparr>launcher := (\<lambda>_ _. \<lparr>fired = [11000, 21000], failure = None\<rparr>)\<rparr>)
                   exampleCave ''native'' exampleOpts \<lparr>caves = exampleCaves, trace = []\<rparr>)))
       = Some (Some 140)"
proof -
  let ?w = "exampleWorld\<lparr>launcher := (\<lambda>_ _. \<lparr>fired = [11000, 21000], failure = None\<rparr>)\<rparr>"
  let ?s = "\<lparr>caves = exampleCaves, trace = []\<rparr>"
  have h1: "getEntity ''c1'' ?s = Some exampleCave"
    by (simp add: getEntity_def exampleCaves_def)
  have h2: "secondsRun exampleCave = Some 120" by (simp add: exampleCave_def)
  have h3: "fired (launcher ?w ''native'' exampleOpts) = [11000, 21000]"
    by (simp add: exampleWorld_def)
  have h4: "caveId exampleCave = ''c1''" by (simp add: exampleCave_def)
  show ?thesis
    using h1 h2 h3 h4
      playtime_tick_adds_ten [of "''c1''" ?s exampleCave _ 21000 11000 exampleCave ?w "''native''" exampleOpts]
    by simp
qed

subsection \<open>C9: the prerequisite installer\<close>

text \<open>
  C9. The prerequisite step changes nothing and spawns nothing when the platform
  is not windows, when the stored record already has the flag, or when none of the
  stored executables matches the installer's name. When the platform is windows,
  the flag is not set and an executable matches, the installer is spawned once with
  \<^verbatim>\<open>/quiet\<close> and \<^verbatim>\<open>/norestart\<close>; exit code 0 stores the flag; a failure to spawn and
  a non-zero exit code are logged and leave the store as it was. Whenever the store
  holds the record, the step ends in \<open>Continue\<close> and what follows it in \<open>doStart\<close>
  runs.
\<close>

theorem prereq_best_effort:
  "(itchPlatform w \<noteq> ''windows'' \<longrightarrow> ue4Prereq w c d s = (Continue (), s))
   \<and> (getEntity (caveId c) s = Some st \<and> installedUE4Prereq st \<longrightarrow>
        ue4Prereq w c d s = (Continue (), s))
   \<and> (getEntity (caveId c) s = Some st
        \<and> find (test ue4PrereqRe) (case executables st of None \<Rightarrow> [] | Some xs \<Rightarrow> xs) = None \<longrightarrow>
        fst (ue4Prereq w c d s) = Continue ()
        \<and> caves (snd (ue4Prereq w c d s)) = caves s
        \<and> filter is_Spawn (trace (snd (ue4Prereq w c d s))) = filter is_Spawn (trace s))
   \<and> (itchPlatform w = ''windows'' \<and> getEntity (caveId c) s = Some st \<and> \<not> installedUE4Prereq st
        \<and> find (test ue4PrereqRe) (case executables st of None \<Rightarrow> [] | Some xs \<Rightarrow> xs) = Some reqFile \<longrightarrow>
        fst (ue4Prereq w c d s) = Continue ()
        \<and> filter is_Spawn (trace (snd (ue4Prereq w c d s)))
            = filter is_Spawn (trace s) @ [Spawn (joinPath w d reqFile) [''/quiet'', ''/norestart'']]
        \<and> (exit (spawn w (joinPath w d reqFile) [''/quiet'', ''/norestart'']) = Inr 0 \<longrightarrow>
              getEntity (caveId c) (snd (ue4Prereq w c d s)) = Some (st\<lparr>installedUE4Prereq := True\<rparr>))
        \<and> (\<forall>e. exit (spawn w (joinPath w d reqFile) [''/quiet'', ''/norestart'']) = Inl e \<longrightarrow>
              caves (snd (ue4Prereq w c d s)) = caves s
              \<and> Log (PrereqError (caveId c) e) \<in> set (trace (snd (ue4Prereq w c d s))))
        \<and> (\<forall>code. exit (spawn w (joinPath w d reqFile) [''/quiet'', ''/norestart'']) = Inr code
              \<and> code \<noteq> 0 \<longrightarrow>
              caves (snd (ue4Prereq w c d s)) = caves s
              \<and> Log (PrereqExitCode code) \<in> set (trace (snd (ue4Prereq w c d s)))))
   \<and> (getEntity (caveId c) s \<noteq> None \<longrightarrow>
        fst (ue4Prereq w c d s) = Continue ()
        \<and> andThen (ue4Prereq w c d s) k = k () (snd (ue4Prereq w c d s)))"
proof (intro conjI impI)
  show "ue4Prereq w c d s = (Continue (), s)" if "itchPlatform w \<noteq> ''windows''"
    using that by (simp add: ue4Prereq_def)
  show "ue4Prereq w c d s = (Continue (), s)"
    if "getEntity (caveId c) s = Some st \<and> installedUE4Prereq st"
    using that by (simp add: ue4Prereq_def)
next
  assume a: "getEntity (caveId c) s = Some st
        \<and> find (test ue4PrereqRe) (case executables st of None \<Rightarrow> [] | Some xs \<Rightarrow> xs) = None"
  then show "fst (ue4Prereq w c d s) = Continue ()" "caves (snd (ue4Prereq w c d s)) = caves s"
    "filter is_Spawn (trace (snd (ue4Prereq w c d s))) = filter is_Spawn (trace s)"
    by (simp_all add: ue4Prereq_def Let_def)
next
  assume a: "itchPlatform w = ''windows'' \<and> getEntity (caveId c) s = Some st \<and> \<not> installedUE4Prereq st
        \<and> find (test ue4PrereqRe) (case executables st of None \<Rightarrow> [] | Some xs \<Rightarrow> xs) = Some reqFile"
  let ?cmd = "joinPath w d reqFile"
  let ?s2 = "emit (Spawn ?cmd [''/quiet'', ''/norestart''])
               (emit (Log (LaunchingInstaller reqFile)) (emit (Log LookingForPrereq) s))"
  let ?s3 = "foldl (\<lambda>st (isErr, tok). emit (Log (if isErr then PrereqErr tok else PrereqOut tok)) st)
               ?s2 (tokens (spawn w ?cmd [''/quiet'', ''/norestart'']))"
  obtain logs where t3: "trace ?s3 = trace ?s2 @ logs" and logs: "\<forall>e \<in> set logs. is_Log e"
    using tokens_trace by blast
  have fl: "filter is_Spawn logs = []" using logs by (auto simp: filter_empty_conv)
  have c3: "caves ?s3 = caves s" by (simp add: tokens_caves)
  have U: "ue4Prereq w c d s =
      (case exit (spawn w ?cmd [''/quiet'', ''/norestart'']) of
         Inl e \<Rightarrow> (Continue (), emit (Log (PrereqError (caveId c) e)) ?s3)
       | Inr code \<Rightarrow>
           if code = 0 then
             (Continue (), saveEntity (caveId c) (\<lambda>x. x\<lparr>installedUE4Prereq := True\<rparr>)
                             (emit (Log PrereqInstalled) ?s3))
           else (Continue (), emit (Log (PrereqExitCode code)) ?s3))"
    using a by (simp add: ue4Prereq_def Let_def)
  show "fst (ue4Prereq w c d s) = Continue ()"
    by (simp add: U split: sum.splits)
  show "filter is_Spawn (trace (snd (ue4Prereq w c d s)))
          = filter is_Spawn (trace s) @ [Spawn ?cmd [''/quiet'', ''/norestart'']]"
    by (simp add: U t3 fl split: sum.splits)
  show "getEntity (caveId c) (snd (ue4Prereq w c d s)) = Some (st\<lparr>installedUE4Prereq := True\<rparr>)"
    if "exit (spawn w ?cmd [''/quiet'', ''/norestart'']) = Inr 0"
    using that a c3 by (simp add: U getEntity_def saveEntity_def)
  show "\<forall>e. exit (spawn w ?cmd [''/quiet'', ''/norestart'']) = Inl e \<longrightarrow>
              caves (snd (ue4Prereq w c d s)) = caves s
              \<and> Log (PrereqError (caveId c) e) \<in> set (trace (snd (ue4Prereq w c d s)))"
    using c3 by (simp add: U)
  show "\<forall>code. exit (spawn w ?cmd [''/quiet'', ''/norestart'']) = Inr code \<and> code \<noteq> 0 \<longrightarrow>
              caves (snd (ue4Prereq w c d s)) = caves s
              \<and> Log (PrereqExitCode code) \<in> set (trace (snd (ue4Prereq w c d s)))"
    using c3 by (simp add: U)
next
  assume a: "getEntity (caveId c) s \<noteq> None"
  then show f: "fst (ue4Prereq w c d s) = Continue ()"
    by (auto simp: ue4Prereq_def Let_def split: option.splits sum.splits)
  then show "andThen (ue4Prereq w c d s) k = k () (snd (ue4Prereq w c d s))"
    by (cases "ue4Prereq w c d s") (simp add: andThen_def)
qed

theorem prereq_best_effort_witness:
  "ue4Prereq (exampleWorld\<lparr>itchPlatform := ''linux''\<rparr>) ue4Cave ''/apps/c1''
      \<lparr>caves = [''c1'' \<mapsto> ue4Cave], trace = []\<rparr>
     = (Continue (), \<lparr>caves = [''c1'' \<mapsto> ue4Cave], trace = []\<rparr>)
   \<and> find (test ue4PrereqRe) (case executables ue4Cave of None \<Rightarrow> [] | Some xs \<Rightarrow> xs)
       = Some ''Engine/UE4PrereqSetup_x64.exe''
   \<and> getEntity ''c1'' (snd (ue4Prereq exampleWorld ue4Cave ''/apps/c1''
         \<lparr>caves = [''c1'' \<mapsto> ue4Cave], trace = []\<rparr>))
       = Some (ue4Cave\<lparr>installedUE4Prereq := True\<rparr>)
   \<and> fst (ue4Prereq (exampleWorld\<lparr>spawn := (\<lambda>_ _. \<lparr>tokens = [], exit = Inl (Failure ''ENOENT'')\<rparr>)\<rparr>)
         ue4Cave ''/apps/c1'' \<lparr>caves = [''c1'' \<mapsto> ue4Cave], trace = []\<rparr>) = Continue ()
   \<and> caves (snd (ue4Prereq (exampleWorld\<lparr>spawn := (\<lambda>_ _. \<lparr>tokens = [], exit = Inl (Failure ''ENOENT'')\<rparr>)\<rparr>)
         ue4Cave ''/apps/c1'' \<lparr>caves = [''c1'' \<mapsto> ue4Cave], trace = []\<rparr>)) = [''c1'' \<mapsto> ue4Cave]
   \<and> fst (ue4Prereq (exampleWorld\<lparr>spawn := (\<lambda>_ _. \<lparr>tokens = [(False, ''failed'')], exit = Inr 3\<rparr>)\<rparr>)
         ue4Cave ''/apps/c1'' \<lparr>caves = [''c1'' \<mapsto> ue4Cave], trace = []\<rparr>) = Continue ()
   \<and> caves (snd (ue4Prereq (exampleWorld\<lparr>spawn := (\<lambda>_ _. \<lparr>tokens = [(False, ''failed'')], exit = Inr 3\<rparr>)\<rparr>)
         ue4Cave ''/apps/c1'' \<lparr>caves = [''c1'' \<mapsto> ue4Cave], trace = []\<rparr>)) = [''c1'' \<mapsto> ue4Cave]"
proof -
  let ?s = "\<lparr>caves = [''c1'' \<mapsto> ue4Cave], trace = []\<rparr>"
  let ?wf = "exampleWorld\<lparr>spawn := (\<lambda>_ _. \<lparr>tokens = [], exit = Inl (Failure ''ENOENT'')\<rparr>)\<rparr>"
  let ?wx = "exampleWorld\<lparr>spawn := (\<lambda>_ _. \<lparr>tokens = [(False, ''failed'')], exit = Inr 3\<rparr>)\<rparr>"
  have l: "itchPlatform (exampleWorld\<lparr>itchPlatform := ''linux''\<rparr>) \<noteq> ''windows''" by simp
  have p: "itchPlatform exampleWorld = ''windows''" "itchPlatform ?wf = ''windows''"
    "itchPlatform ?wx = ''windows''"
    by (simp_all add: exampleWorld_def)
  have g: "getEntity (caveId ue4Cave) ?s = Some ue4Cave" "\<not> installedUE4Prereq ue4Cave"
    "caveId ue4Cave = ''c1''"
    by (simp_all add: getEntity_def ue4Cave_def exampleCave_def)
  have t: "\<not> test ue4PrereqRe ''Game.exe''" "test ue4PrereqRe ''Engine/UE4PrereqSetup_x64.exe''"
    by code_simp+
  have f: "find (test ue4PrereqRe) (case executables ue4Cave of None \<Rightarrow> [] | Some xs \<Rightarrow> xs)
             = Some ''Engine/UE4PrereqSetup_x64.exe''"
    by (simp add: ue4Cave_def t)
  have x: "exit (spawn exampleWorld (joinPath exampleWorld ''/apps/c1'' ''Engine/UE4PrereqSetup_x64.exe'')
                   [''/quiet'', ''/norestart'']) = Inr 0"
    "exit (spawn ?wf (joinPath ?wf ''/apps/c1'' ''Engine/UE4PrereqSetup_x64.exe'')
                   [''/quiet'', ''/norestart'']) = Inl (Failure ''ENOENT'')"
    "exit (spawn ?wx (joinPath ?wx ''/apps/c1'' ''Engine/UE4PrereqSetup_x64.exe'')
                   [''/quiet'', ''/norestart'']) = Inr 3"
    by (simp_all add: exampleWorld_def)
  show ?thesis
    using l p g f x
      prereq_best_effort [of "exampleWorld\<lparr>itchPlatform := ''linux''\<rparr>" ue4Cave "''/apps/c1''" ?s]
      prereq_best_effort [of exampleWorld ue4Cave "''/apps/c1''" ?s ue4Cave "''Engine/UE4PrereqSetup_x64.exe''"]
      prereq_best_effort [of ?wf ue4Cave "''/apps/c1''" ?s ue4Cave "''Engine/UE4PrereqSetup_x64.exe''"]
      prereq_best_effort [of ?wx ue4Cave "''/apps/c1''" ?s ue4Cave "''Engine/UE4PrereqSetup_x64.exe''"]
    by simp
qed

subsection \<open>C10: the unescaped dot of the native-extension pattern\<close>

text \<open>
  C10, as amended. The leading dot of the native-extension pattern matches any
  character that is not a line terminator, so every path whose last characters are
  \<^verbatim>\<open>app\<close>, \<^verbatim>\<open>exe\<close>, \<^verbatim>\<open>bat\<close> or \<^verbatim>\<open>sh\<close> (in any letter case) preceded by such a
  character is \<open>native\<close>, whether or not it has a dot, and its file is never sniffed:
  the state comes back unchanged. \<^verbatim>\<open>wombat\<close> and \<^verbatim>\<open>smash\<close> are two such paths. The
  claim as first stated allows any character before the ending; a line feed there
  makes the pattern fail, and the path below is sniffed and, on a machine whose
  sniffer knows the file as no executable, comes out \<open>shell\<close>.
\<close>

theorem wildcard_dot_native:
  assumes "\<not> lineTerminator c"
      and "map canonicalize suf \<in> set [''APP'', ''EXE'', ''BAT'', ''SH'']"
  shows "launchTypeForAction w d (pre @ c # suf) s = (Inr ''native'', s)"
  using native_match [OF assms] by (simp add: launchTypeForAction_def)

theorem wildcard_dot_native_witness:
  "\<not> lineTerminator CHR ''m'' \<and> map canonicalize ''bat'' \<in> set [''APP'', ''EXE'', ''BAT'', ''SH'']
   \<and> \<not> lineTerminator CHR ''a'' \<and> map canonicalize ''sh'' \<in> set [''APP'', ''EXE'', ''BAT'', ''SH'']
   \<and> launchTypeForAction exampleWorld ''/apps/c1'' ''wombat'' emptyState = (Inr ''native'', emptyState)
   \<and> launchTypeForAction exampleWorld ''/apps/c1'' ''smash'' emptyState = (Inr ''native'', emptyState)"
proof -
  have m: "\<not> lineTerminator CHR ''m''" and a: "\<not> lineTerminator CHR ''a''"
    by (simp_all add: lineTerminator_def)
  have b: "map canonicalize ''bat'' \<in> set [''APP'', ''EXE'', ''BAT'', ''SH'']"
    and s: "map canonicalize ''sh'' \<in> set [''APP'', ''EXE'', ''BAT'', ''SH'']"
    by simp_all
  show ?thesis
    using m a b s
      wildcard_dot_native [OF m b, of exampleWorld "''/apps/c1''" "''wo''" emptyState]
      wildcard_dot_native [OF a s, of exampleWorld "''/apps/c1''" "''sm''" emptyState]
    by simp
qed

theorem wildcard_dot_line_feed_counterexample:
  "launchTypeForAction exampleWorld ''/apps/c1'' [CHR 0x0A, CHR ''s'', CHR ''h''] emptyState
     = (Inr ''shell'', emit (Sniff (''/apps/c1/'' @ [CHR 0x0A, CHR ''s'', CHR ''h''])) emptyState)"
proof -
  have "\<not> test nativeExtRe [CHR 0x0A, CHR ''s'', CHR ''h'']"
       "\<not> test htmlExtRe [CHR 0x0A, CHR ''s'', CHR ''h'']"
       "\<not> test urlRe [CHR 0x0A, CHR ''s'', CHR ''h'']"
    by code_simp+
  then show ?thesis
    by (simp add: launchTypeForAction_def exampleWorld_def Let_def)
qed

end
